theory Spec2Isabelle
  imports Complex_Main
begin

section \<open>Strings\<close>

text \<open>
  Python strings are modelled as \<^typ>\<open>string\<close>, the UTF-8 bytes of the text. Case
  mapping acts on the ASCII letters (the keywords the code looks for are ASCII), and
  \<open>strip\<close> removes the ASCII white space that \<open>str.strip()\<close> removes.
\<close>

definition ascii_upper :: string where
  "ascii_upper = ''ABCDEFGHIJKLMNOPQRSTUVWXYZ''"

definition ascii_lower :: string where
  "ascii_lower = ''abcdefghijklmnopqrstuvwxyz''"

definition lower_char :: "char \<Rightarrow> char" where
  "lower_char c = (case map_of (zip ascii_upper ascii_lower) c of Some d \<Rightarrow> d | None \<Rightarrow> c)"

definition upper_char :: "char \<Rightarrow> char" where
  "upper_char c = (case map_of (zip ascii_lower ascii_upper) c of Some d \<Rightarrow> d | None \<Rightarrow> c)"

definition lower :: "string \<Rightarrow> string" where
  "lower s = map lower_char s"

definition upper :: "string \<Rightarrow> string" where
  "upper s = map upper_char s"

text \<open>\<open>needle in hay\<close> on strings.\<close>

fun str_in :: "string \<Rightarrow> string \<Rightarrow> bool" where
  "str_in needle [] = (needle = [])"
| "str_in needle (c # cs) = (take (length needle) (c # cs) = needle \<or> str_in needle cs)"

definition is_space :: "char \<Rightarrow> bool" where
  "is_space c =
     (c \<in> set [CHR 0x09, CHR 0x0A, CHR 0x0B, CHR 0x0C, CHR 0x0D,
                CHR 0x1C, CHR 0x1D, CHR 0x1E, CHR 0x1F, CHR 0x20])"

definition strip :: "string \<Rightarrow> string" where
  "strip s = rev (dropWhile is_space (rev (dropWhile is_space s)))"

section \<open>Exceptions\<close>

datatype exn_kind =
    JSONDecodeError | ValueError | RuntimeError | KeyError | AttributeError | TypeError
  | UnboundLocalError | OtherException

text \<open>An exception is its class and the text \<open>str(e)\<close>.\<close>

datatype exn = Exn (kind: exn_kind) (str: string)

section \<open>The LLM call with retries (nodes.py, \<open>call_llm_with_retry\<close>)\<close>

text \<open>
  What \<open>llm.invoke([message]).content\<close> does at one invocation: it returns the content
  or raises. A client is a function of the prompt and of the number of the invocation.
\<close>

datatype llm_reply = Content string | Throws exn

type_synonym llm = "string \<Rightarrow> nat \<Rightarrow> llm_reply"

text \<open>The body of the \<open>try\<close>: the stripped content, or \<open>ValueError\<close> on an empty one.\<close>

definition invoke_stripped :: "llm_reply \<Rightarrow> exn + string" where
  "invoke_stripped r =
     (case r of
        Throws e \<Rightarrow> Inl e
      | Content c \<Rightarrow>
          (let rsp = strip c in
           if rsp \<noteq> [] then Inr rsp else Inl (Exn ValueError ''Empty LLM response'')))"

definition is_rate_limited :: "exn \<Rightarrow> bool" where
  "is_rate_limited e = (str_in ''429'' (str e) \<or> str_in ''rate'' (lower (str e)))"

text \<open>
  The pause after a failed attempt that is not the last one; \<open>jitter attempt\<close> is the
  draw of \<open>random.uniform(0, 1)\<close> at that attempt. Times are seconds.
\<close>

definition pause_after :: "(nat \<Rightarrow> rat) \<Rightarrow> exn \<Rightarrow> nat \<Rightarrow> rat" where
  "pause_after jitter e attempt =
     (if is_rate_limited e then min ((2 ^ attempt) * 2 + jitter attempt) 60 else 1)"

text \<open>
  The \<open>for attempt in range(max_retries)\<close> loop, over the attempts still to make. The
  result is what the call returns or raises, with the list of the \<open>time.sleep\<close>
  durations in order (one per retry).
\<close>

fun llm_attempts ::
  "(nat \<Rightarrow> llm_reply) \<Rightarrow> (nat \<Rightarrow> rat) \<Rightarrow> nat \<Rightarrow> nat list \<Rightarrow> (exn + string) \<times> rat list" where
  "llm_attempts invoke jitter max_retries [] =
     (Inl (Exn RuntimeError ''LLM failed after retries''), [])"
| "llm_attempts invoke jitter max_retries (attempt # rest) =
     (case invoke_stripped (invoke attempt) of
        Inr rsp \<Rightarrow> (Inr rsp, [])
      | Inl e \<Rightarrow>
          if int attempt < int max_retries - 1
          then (case llm_attempts invoke jitter max_retries rest of
                  (r, sleeps) \<Rightarrow> (r, pause_after jitter e attempt # sleeps))
          else (Inl e, []))"

definition call_llm_with_retry ::
  "llm \<Rightarrow> string \<Rightarrow> (nat \<Rightarrow> rat) \<Rightarrow> nat \<Rightarrow> (exn + string) \<times> rat list" where
  "call_llm_with_retry llm message jitter max_retries =
     llm_attempts (llm message) jitter max_retries [0..<max_retries]"

section \<open>More string operations\<close>

definition nl :: string where
  "nl = [CHR 0x0A]"

definition quote :: string where
  "quote = [CHR 0x27]"

text \<open>\<open>sep.join(xs)\<close>.\<close>

fun join :: "string \<Rightarrow> string list \<Rightarrow> string" where
  "join sep [] = []"
| "join sep [x] = x"
| "join sep (x # y # ys) = x @ sep @ join sep (y # ys)"

definition is_ascii_letter :: "char \<Rightarrow> bool" where
  "is_ascii_letter c = (c \<in> set ascii_upper \<or> c \<in> set ascii_lower)"

text \<open>\<open>str.title()\<close>: a letter after a letter is lowered, any other letter is raised.\<close>

fun title_from :: "bool \<Rightarrow> string \<Rightarrow> string" where
  "title_from previous_is_cased [] = []"
| "title_from previous_is_cased (c # cs) =
     (if is_ascii_letter c
      then (if previous_is_cased then lower_char c else upper_char c) # title_from True cs
      else c # title_from False cs)"

definition title :: "string \<Rightarrow> string" where
  "title s = title_from False s"

text \<open>\<open>s.replace('_', ' ')\<close>.\<close>

definition replace_underscores :: "string \<Rightarrow> string" where
  "replace_underscores s = map (\<lambda>c. if c = CHR ''_'' then CHR '' '' else c) s"

definition digit_char :: "nat \<Rightarrow> char" where
  "digit_char d = (''0123456789'' ! d)"

function show_nat :: "nat \<Rightarrow> string" where
  "show_nat n = (if n < 10 then [digit_char n] else show_nat (n div 10) @ [digit_char (n mod 10)])"
  by pat_completeness auto
termination
  by (relation "measure id") auto

declare show_nat.simps [simp del]

definition show_int :: "int \<Rightarrow> string" where
  "show_int i = (if i < 0 then ''-'' @ show_nat (nat (- i)) else show_nat (nat i))"

text \<open>
  Python floats are modelled by exact rationals. \<open>f"{x:.1%}"\<close> prints \<open>100 * x\<close> with
  one digit after the point, rounding a tie to the even digit.
\<close>

definition round_half_even :: "rat \<Rightarrow> int" where
  "round_half_even x =
     (let f = \<lfloor>x\<rfloor>; d = x - of_int f
      in if d < 1 / 2 then f else if 1 / 2 < d then f + 1 else if even f then f else f + 1)"

definition format_percent_1 :: "rat \<Rightarrow> string" where
  "format_percent_1 x =
     (let t = round_half_even (\<bar>x\<bar> * 1000)
      in (if x < 0 then ''-'' else []) @ show_nat (nat (t div 10)) @ ''.''
           @ show_nat (nat (t mod 10)) @ ''%'')"

text \<open>\<open>int(x)\<close> on a float truncates towards zero.\<close>

definition py_int :: "rat \<Rightarrow> int" where
  "py_int x = (if 0 \<le> x then \<lfloor>x\<rfloor> else \<lceil>x\<rceil>)"

text \<open>\<open>d.get(key, default)\<close> on an entry that may be absent.\<close>

definition get_or :: "'a option \<Rightarrow> 'a \<Rightarrow> 'a" where
  "get_or v d = (case v of None \<Rightarrow> d | Some x \<Rightarrow> x)"

text \<open>The symbols of the messages, as their UTF-8 bytes.\<close>

definition warning_sign :: string where
  "warning_sign = [CHR 0xE2, CHR 0x9A, CHR 0xA0, CHR 0xEF, CHR 0xB8, CHR 0x8F]"

definition cross_mark :: string where
  "cross_mark = [CHR 0xE2, CHR 0x9D, CHR 0x8C]"

definition check_mark :: string where
  "check_mark = [CHR 0xE2, CHR 0x9C, CHR 0x85]"

definition memo :: string where
  "memo = [CHR 0xF0, CHR 0x9F, CHR 0x93, CHR 0x9D]"

definition siren :: string where
  "siren = [CHR 0xF0, CHR 0x9F, CHR 0x9A, CHR 0xA8]"

definition magnifier :: string where
  "magnifier = [CHR 0xF0, CHR 0x9F, CHR 0x94, CHR 0x8D]"

definition clipboard :: string where
  "clipboard = [CHR 0xF0, CHR 0x9F, CHR 0x93, CHR 0x8B]"

definition bar_chart :: string where
  "bar_chart = [CHR 0xF0, CHR 0x9F, CHR 0x93, CHR 0x8A]"

definition newspaper :: string where
  "newspaper = [CHR 0xF0, CHR 0x9F, CHR 0x93, CHR 0xB0]"

definition microscope :: string where
  "microscope = [CHR 0xF0, CHR 0x9F, CHR 0x94, CHR 0xAC]"

definition mobile_phone :: string where
  "mobile_phone = [CHR 0xF0, CHR 0x9F, CHR 0x93, CHR 0xB1]"

definition dart :: string where
  "dart = [CHR 0xF0, CHR 0x9F, CHR 0x8E, CHR 0xAF]"

definition red_circle :: string where
  "red_circle = [CHR 0xF0, CHR 0x9F, CHR 0x94, CHR 0xB4]"

definition yellow_circle :: string where
  "yellow_circle = [CHR 0xF0, CHR 0x9F, CHR 0x9F, CHR 0xA1]"

definition green_circle :: string where
  "green_circle = [CHR 0xF0, CHR 0x9F, CHR 0x9F, CHR 0xA2]"

definition orange_circle :: string where
  "orange_circle = [CHR 0xF0, CHR 0x9F, CHR 0x9F, CHR 0xA0]"

definition label_tag :: string where
  "label_tag = [CHR 0xF0, CHR 0x9F, CHR 0x8F, CHR 0xB7, CHR 0xEF, CHR 0xB8, CHR 0x8F]"

definition bust :: string where
  "bust = [CHR 0xF0, CHR 0x9F, CHR 0x91, CHR 0xA4]"

definition en_dash :: string where
  "en_dash = [CHR 0xE2, CHR 0x80, CHR 0x93]"

definition ellipsis :: string where
  "ellipsis = [CHR 0xE2, CHR 0x80, CHR 0xA6]"

section \<open>The state (workflow.py, \<open>ContentState\<close>)\<close>

text \<open>
  An entity of the analysis is a dictionary, of which the code reads the key \<open>name\<close>, or
  another value, of which it takes \<open>str\<close>.
\<close>

datatype entity = EntityDict "string option" | EntityOther string

record article =
  title_of :: string
  description :: string
  article_url :: string
  publishedAt :: string

record fact_check =
  claim_text :: string
  claimant :: string
  rating :: "string option"
  fact_check_url :: string

text \<open>
  The state is a dictionary: a key is absent (\<open>None\<close>) or holds a value of the type that
  \<open>ContentState\<close> declares for it. A stage returns a partial update, a dictionary of the
  same kind. \<open>risk_reason\<close> is a key that only the update of the risk assessment has.
\<close>

record ContentState =
  text_in :: "string option"
  source_url :: "string option"
  force_human_review :: "bool option"
  include_external_verification :: "bool option"
  content_type :: "string option"
  language :: "string option"
  topics :: "string list option"
  entities :: "entity list option"
  sentiment :: "(string \<times> rat) list option"
  summary :: "string option"
  key_claims :: "string list option"
  writing_style :: "string option"
  fact_check_results :: "fact_check list option"
  similar_articles :: "article list option"
  verification_score :: "rat option"
  misinformation_flags :: "string list option"
  risk_level :: "string option"
  confidence_score :: "rat option"
  risk_score :: "rat option"
  risk_reason :: "string option"
  flags_detected :: "int option"
  human_approval :: "string option"
  review_status :: "string option"
  reviewer_notes :: "string option"
  recommendations :: "string list option"
  final_report :: "string option"
  processing_complete :: "bool option"
  report_timestamp :: "string option"
  processing_time :: "rat option"

definition no_keys :: ContentState where
  "no_keys =
     \<lparr>text_in = None, source_url = None, force_human_review = None,
      include_external_verification = None, content_type = None, language = None,
      topics = None, entities = None, sentiment = None, summary = None, key_claims = None,
      writing_style = None, fact_check_results = None, similar_articles = None,
      verification_score = None, misinformation_flags = None, risk_level = None,
      confidence_score = None, risk_score = None, risk_reason = None, flags_detected = None,
      human_approval = None, review_status = None, reviewer_notes = None,
      recommendations = None, final_report = None, processing_complete = None,
      report_timestamp = None, processing_time = None\<rparr>"

text \<open>Merging an update into the state: a key of the update overwrites, the others stay.\<close>

definition overwrite :: "'a option \<Rightarrow> 'a option \<Rightarrow> 'a option" where
  "overwrite old new = (case new of None \<Rightarrow> old | Some v \<Rightarrow> Some v)"

definition merge :: "ContentState \<Rightarrow> ContentState \<Rightarrow> ContentState" where
  "merge s u =
     \<lparr>text_in = overwrite (text_in s) (text_in u),
      source_url = overwrite (source_url s) (source_url u),
      force_human_review = overwrite (force_human_review s) (force_human_review u),
      include_external_verification =
        overwrite (include_external_verification s) (include_external_verification u),
      content_type = overwrite (content_type s) (content_type u),
      language = overwrite (language s) (language u),
      topics = overwrite (topics s) (topics u),
      entities = overwrite (entities s) (entities u),
      sentiment = overwrite (sentiment s) (sentiment u),
      summary = overwrite (summary s) (summary u),
      key_claims = overwrite (key_claims s) (key_claims u),
      writing_style = overwrite (writing_style s) (writing_style u),
      fact_check_results = overwrite (fact_check_results s) (fact_check_results u),
      similar_articles = overwrite (similar_articles s) (similar_articles u),
      verification_score = overwrite (verification_score s) (verification_score u),
      misinformation_flags = overwrite (misinformation_flags s) (misinformation_flags u),
      risk_level = overwrite (risk_level s) (risk_level u),
      confidence_score = overwrite (confidence_score s) (confidence_score u),
      risk_score = overwrite (risk_score s) (risk_score u),
      risk_reason = overwrite (risk_reason s) (risk_reason u),
      flags_detected = overwrite (flags_detected s) (flags_detected u),
      human_approval = overwrite (human_approval s) (human_approval u),
      review_status = overwrite (review_status s) (review_status u),
      reviewer_notes = overwrite (reviewer_notes s) (reviewer_notes u),
      recommendations = overwrite (recommendations s) (recommendations u),
      final_report = overwrite (final_report s) (final_report u),
      processing_complete = overwrite (processing_complete s) (processing_complete u),
      report_timestamp = overwrite (report_timestamp s) (report_timestamp u),
      processing_time = overwrite (processing_time s) (processing_time u)\<rparr>"

section \<open>The session, the page and the capabilities\<close>

datatype api_call = NewsSearch string | FactCheckSearch string

text \<open>
  What the stages read and write outside the state: the keys of \<open>st.session_state\<close>
  (\<open>notes_widget\<close> is its key \<open>reviewer_notes\<close>; the preferences are those with a
  string value), the messages that \<open>st.error\<close> puts on the page, and the lookups sent
  to the two search capabilities.
\<close>

record ambient =
  review_decision :: "string option"
  notes_widget :: "string option"
  temp_reviewer_notes :: "string option"
  user_preferences :: "(string \<times> string) list option"
  session_id :: "string option"
  analysis_start_time :: "rat option"
  error_log :: "exn list"
  page_errors :: "string list"
  api_calls :: "api_call list"

text \<open>
  How a call ends: it returns, it raises an \<open>Exception\<close>, or the script is halted by
  \<open>st.stop()\<close> or \<open>st.rerun()\<close>, whose control exceptions are no \<open>Exception\<close> and pass
  through every \<open>except Exception\<close>.
\<close>

datatype 'a outcome = Returned 'a | Raised exn | Stopped | Rerun

text \<open>The update that a stage returned, if any.\<close>

definition returned_update :: "ContentState option outcome \<Rightarrow> ContentState option" where
  "returned_update r = (case r of Returned u \<Rightarrow> u | _ \<Rightarrow> None)"

subsection \<open>error_handler.py\<close>

definition log_error :: "exn \<Rightarrow> ambient \<Rightarrow> ambient" where
  "log_error e a =
     (let log = error_log a @ [e]
      in a\<lparr>error_log := (if 10 < length log then drop (length log - 10) log else log)\<rparr>)"

definition st_error :: "string \<Rightarrow> ambient \<Rightarrow> ambient" where
  "st_error msg a = a\<lparr>page_errors := page_errors a @ [msg]\<rparr>"

definition handle_api_error :: "exn \<Rightarrow> string \<Rightarrow> ambient \<Rightarrow> 'a outcome \<times> ambient" where
  "handle_api_error error api_name a =
     (Raised error,
      st_error (cross_mark @ '' '' @ title api_name @ '' API error: '' @ str error)
        (log_error error a))"

text \<open>
  The decorator \<open>error_boundary\<close>, applied to the result of the function it wraps;
  \<open>func_name\<close> is \<open>func.__name__\<close>. \<open>Returned None\<close> is Python's \<open>None\<close>.
\<close>

definition error_boundary ::
  "string \<Rightarrow> 'a outcome \<times> ambient \<Rightarrow> 'a option outcome \<times> ambient" where
  "error_boundary func_name r =
     (case r of
        (Returned v, a) \<Rightarrow> (Returned (Some v), a)
      | (Raised e, a) \<Rightarrow>
          (Returned None,
           st_error (''An error occurred in '' @ func_name @ '': '' @ str e) (log_error e a))
      | (Stopped, a) \<Rightarrow> (Stopped, a)
      | (Rerun, a) \<Rightarrow> (Rerun, a))"

subsection \<open>The capabilities\<close>

text \<open>
  \<open>json.loads\<close> on the reply of the LLM: it raises \<open>JSONDecodeError\<close> with a message,
  or gives an object, seen through the keys the stage reads, or another JSON value, of
  which the name of the Python type is kept.
\<close>

datatype 'a json_result = JsonError string | JsonObject 'a | JsonOther string

record analysis_reply =
  reply_content_type :: "string option"
  reply_language :: "string option"
  reply_topics :: "string list option"
  reply_entities :: "entity list option"
  reply_sentiment :: "(string \<times> rat) list option"
  reply_summary :: "string option"
  reply_key_claims :: "string list option"
  reply_writing_style :: "string option"

record risk_reply =
  reply_risk_level :: "string option"
  reply_confidence :: "rat option"
  reply_reason :: "string option"

text \<open>
  The collaborators of one run: the client that \<open>get_llm_client\<close> gives (or \<open>None\<close>),
  the decoder, the draws of the jitter, the two cached lookups (each returns a list or
  raises), the buttons of the review form that report a click (by widget key), and the
  clock (\<open>time.time()\<close> and \<open>time.strftime\<close>).
\<close>

record env =
  llm_client :: "llm option"
  loads_analysis :: "string \<Rightarrow> analysis_reply json_result"
  loads_risk :: "string \<Rightarrow> risk_reply json_result"
  jitter :: "nat \<Rightarrow> rat"
  cached_news_search :: "string \<Rightarrow> exn + article list"
  cached_fact_check :: "string \<Rightarrow> exn + fact_check list"
  button_clicked :: "string \<Rightarrow> bool"
  now :: rat
  now_str :: string

section \<open>The stages (nodes.py)\<close>

subsection \<open>extract_json\<close>

definition find_char :: "char \<Rightarrow> string \<Rightarrow> int" where
  "find_char c s = (if c \<in> set s then int (length (takeWhile (\<lambda>x. x \<noteq> c) s)) else - 1)"

definition rfind_char :: "char \<Rightarrow> string \<Rightarrow> int" where
  "rfind_char c s =
     (if c \<in> set s then int (length s) - 1 - int (length (takeWhile (\<lambda>x. x \<noteq> c) (rev s)))
      else - 1)"

definition extract_json :: "string \<Rightarrow> string" where
  "extract_json t =
     (let i = find_char CHR ''{'' t; j = rfind_char CHR ''}'' t
      in if i \<noteq> - 1 \<and> - 1 < j then take (nat (j + 1) - nat i) (drop (nat i) t) else t)"

subsection \<open>content_analysis_node\<close>

definition content_analysis_prompt :: "string \<Rightarrow> string" where
  \<open>content_analysis_prompt t =
     ''Return valid JSON only '' @ en_dash @ '' no markdown or prose.'' @ nl @ nl
     @ ''{'' @ nl
     @ ''  "content_type": "news|blog|social_media|research|opinion",'' @ nl
     @ ''  "language": "en",'' @ nl
     @ ''  "topics": ["t1","t2"],'' @ nl
     @ ''  "entities": [{"name":"n","type":"ORG","confidence":0.95}],'' @ nl
     @ ''  "sentiment": {"positive":0,"negative":0,"neutral":1,"confidence":0.9},'' @ nl
     @ ''  "summary": "'' @ ellipsis @ ''",'' @ nl
     @ ''  "key_claims": [],'' @ nl
     @ ''  "writing_style": "formal|informal"'' @ nl
     @ ''}'' @ nl @ nl
     @ ''Analyse: '' @ t @ nl @ nl
     @ ''JSON:''\<close>

text \<open>The minimal structure that the two recovering handlers return.\<close>

definition minimal_analysis :: "string \<Rightarrow> ContentState" where
  "minimal_analysis summary_text =
     no_keys\<lparr>content_type := Some ''unknown'', language := Some ''en'', topics := Some [],
       entities := Some [], sentiment := Some [(''neutral'', 1), (''confidence'', 1 / 10)],
       summary := Some summary_text, key_claims := Some [],
       writing_style := Some ''unknown''\<rparr>"

text \<open>The handler \<open>except Exception\<close> of the stage.\<close>

definition content_analysis_except :: "exn \<Rightarrow> ambient \<Rightarrow> ContentState outcome \<times> ambient" where
  "content_analysis_except e a =
     (if str_in ''429'' (str e) \<or> str_in ''rate'' (lower (str e))
      then (Returned (minimal_analysis ''Analysis paused due to rate limiting''),
            st_error (warning_sign @ '' Rate limit reached. Please wait before retrying.'') a)
      else (Raised e, a))"

text \<open>
  The body of the stage. An exception of class \<open>JSONDecodeError\<close> that comes out of the
  LLM call reaches the first handler with \<open>raw\<close> unbound, and the handler raises.
\<close>

definition content_analysis_body ::
  "env \<Rightarrow> ContentState \<Rightarrow> ambient \<Rightarrow> ContentState outcome \<times> ambient" where
  "content_analysis_body env state a =
     (case llm_client env of
        None \<Rightarrow> handle_api_error (Exn OtherException ''LLM unavailable'') ''openrouter'' a
      | Some llm \<Rightarrow>
          (case text_in state of
             None \<Rightarrow> (Raised (Exn KeyError (quote @ ''text'' @ quote)), a)
           | Some t \<Rightarrow>
               (case fst (call_llm_with_retry llm (content_analysis_prompt t) (jitter env) 4) of
                  Inl e \<Rightarrow>
                    if kind e = JSONDecodeError
                    then (Raised (Exn UnboundLocalError
                            (''cannot access local variable '' @ quote @ ''raw'' @ quote
                             @ '' where it is not associated with a value'')), a)
                    else content_analysis_except e a
                | Inr raw \<Rightarrow>
                    (case loads_analysis env (extract_json raw) of
                       JsonError msg \<Rightarrow>
                         (Returned (minimal_analysis ''Analysis failed - JSON parse error''),
                          log_error (Exn JSONDecodeError msg) a)
                     | JsonOther ty \<Rightarrow>
                         content_analysis_except
                           (Exn AttributeError
                              (quote @ ty @ quote @ '' object has no attribute '' @ quote
                               @ ''get'' @ quote)) a
                     | JsonObject data \<Rightarrow>
                         (Returned
                            (no_keys\<lparr>
                               content_type := Some (get_or (reply_content_type data) ''unknown''),
                               language := Some (get_or (reply_language data) ''en''),
                               topics := Some (get_or (reply_topics data) []),
                               entities := Some (get_or (reply_entities data) []),
                               sentiment := Some (get_or (reply_sentiment data)
                                              [(''neutral'', 1), (''confidence'', 1 / 2)]),
                               summary := Some (get_or (reply_summary data) []),
                               key_claims := Some (get_or (reply_key_claims data) []),
                               writing_style :=
                                 Some (get_or (reply_writing_style data) ''unknown'')\<rparr>),
                          a)))))"

text \<open>
  The stage as the graph has it: under \<open>performance_monitor\<close>, which raises again what
  it catches and whose inner function is named \<open>wrapper\<close>, and under \<open>error_boundary\<close>.
\<close>

definition content_analysis_node ::
  "env \<Rightarrow> ContentState \<Rightarrow> ambient \<Rightarrow> ContentState option outcome \<times> ambient" where
  "content_analysis_node env state a =
     error_boundary ''wrapper'' (content_analysis_body env state a)"

subsection \<open>verification_node\<close>

definition search_query_of :: "ContentState \<Rightarrow> string" where
  "search_query_of state =
     (let ents = get_or (entities state) []; tops = get_or (topics state) []
      in if ents \<noteq> []
         then (case hd ents of
                 EntityDict name \<Rightarrow> get_or name []
               | EntityOther v \<Rightarrow> v)
         else if tops \<noteq> [] then join '' '' (take 2 tops)
         else take 50 (get_or (text_in state) []))"

definition positive_rating :: "string \<Rightarrow> bool" where
  "positive_rating r = (str_in ''true'' r \<or> str_in ''correct'' r)"

definition negative_rating :: "string \<Rightarrow> bool" where
  "negative_rating r = (str_in ''false'' r \<or> str_in ''incorrect'' r)"

text \<open>\<open>[fc.get("rating", "").lower() for fc in fact_check_results]\<close>.\<close>

definition ratings_of :: "fact_check list \<Rightarrow> string list" where
  "ratings_of fact_checks = map (\<lambda>fc. lower (get_or (rating fc) [])) fact_checks"

text \<open>The score of the stage, from the two lists that the lookups returned.\<close>

definition verification_score_of :: "article list \<Rightarrow> fact_check list \<Rightarrow> rat" where
  "verification_score_of articles fact_checks =
     (let score0 = 1 / 2;
          score1 = (if articles \<noteq> [] then score0 + 1 / 10 else score0);
          ratings = ratings_of fact_checks;
          score2 =
            (if fact_checks \<noteq> []
             then (if list_ex positive_rating ratings then score1 + 2 / 10
                   else if list_ex negative_rating ratings then score1 - 3 / 10
                   else score1)
             else score1)
      in max 0 (min 1 score2))"

definition neutral_verification :: ContentState where
  "neutral_verification =
     no_keys\<lparr>fact_check_results := Some [], similar_articles := Some [],
       verification_score := Some (1 / 2)\<rparr>"

definition call_api :: "api_call \<Rightarrow> ambient \<Rightarrow> ambient" where
  "call_api c a = a\<lparr>api_calls := api_calls a @ [c]\<rparr>"

definition verification_body ::
  "env \<Rightarrow> ContentState \<Rightarrow> ambient \<Rightarrow> ContentState outcome \<times> ambient" where
  "verification_body env state a =
     (let search_query = search_query_of state
      in if strip search_query = [] then (Returned neutral_verification, a)
         else
           (let a1 = call_api (NewsSearch search_query) a
            in case cached_news_search env search_query of
                 Inl e \<Rightarrow> (Returned neutral_verification, log_error e a1)
               | Inr articles \<Rightarrow>
                   (let a2 = call_api (FactCheckSearch search_query) a1
                    in case cached_fact_check env search_query of
                         Inl e \<Rightarrow> (Returned neutral_verification, log_error e a2)
                       | Inr fact_checks \<Rightarrow>
                           (Returned
                              (no_keys\<lparr>fact_check_results := Some (take 3 fact_checks),
                                 similar_articles := Some (take 3 articles),
                                 verification_score :=
                                   Some (verification_score_of articles fact_checks)\<rparr>),
                            a2))))"

definition verification_node ::
  "env \<Rightarrow> ContentState \<Rightarrow> ambient \<Rightarrow> ContentState option outcome \<times> ambient" where
  "verification_node env state a = error_boundary ''wrapper'' (verification_body env state a)"

subsection \<open>risk_assessment_node\<close>

definition risk_assessment_prompt :: "string \<Rightarrow> string" where
  \<open>risk_assessment_prompt t =
     ''Analyse the following content and return ONLY a JSON object with ''
     @ ''exactly these keys: "risk_level" (low|medium|high|critical), ''
     @ ''"confidence" (0-1 float), "reason" (short string).'' @ nl @ nl
     @ ''Content:'' @ nl @ t @ nl @ nl @ ''JSON:''\<close>

definition key_error :: "string \<Rightarrow> exn" where
  "key_error k = Exn KeyError (quote @ k @ quote)"

text \<open>
  The body of the \<open>try\<close>: one invocation of the client, no retry, no cleaning of the
  reply; the keys are read in the order \<open>risk_level\<close>, \<open>confidence\<close>, \<open>reason\<close>.
\<close>

definition risk_assessment_try :: "llm \<Rightarrow> env \<Rightarrow> string \<Rightarrow> exn + ContentState" where
  "risk_assessment_try llm env t =
     (case llm (risk_assessment_prompt t) 0 of
        Throws e \<Rightarrow> Inl e
      | Content raw_json \<Rightarrow>
          (case loads_risk env raw_json of
             JsonError msg \<Rightarrow> Inl (Exn JSONDecodeError msg)
           | JsonOther ty \<Rightarrow> Inl (Exn TypeError (ty @ '' value is not indexed by a key''))
           | JsonObject data \<Rightarrow>
               (case reply_risk_level data of
                  None \<Rightarrow> Inl (key_error ''risk_level'')
                | Some level \<Rightarrow>
                    (case reply_confidence data of
                       None \<Rightarrow> Inl (key_error ''confidence'')
                     | Some confidence \<Rightarrow>
                         (case reply_reason data of
                            None \<Rightarrow> Inl (key_error ''reason'')
                          | Some reason \<Rightarrow>
                              Inr (no_keys\<lparr>risk_level := Some level,
                                     risk_score := Some (1 - confidence),
                                     confidence_score := Some confidence,
                                     risk_reason := Some reason,
                                     misinformation_flags := Some [],
                                     flags_detected := Some 0\<rparr>))))))"

definition risk_assessment_body ::
  "env \<Rightarrow> ContentState \<Rightarrow> ambient \<Rightarrow> ContentState outcome \<times> ambient" where
  "risk_assessment_body env state a =
     (case llm_client env of
        None \<Rightarrow> handle_api_error (Exn OtherException ''LLM unavailable'') ''openrouter'' a
      | Some llm \<Rightarrow>
          (case text_in state of
             None \<Rightarrow> (Raised (key_error ''text''), a)
           | Some t \<Rightarrow>
               (case risk_assessment_try llm env t of
                  Inr update \<Rightarrow> (Returned update, a)
                | Inl e \<Rightarrow> handle_api_error e ''openrouter'' a)))"

definition risk_assessment_node ::
  "env \<Rightarrow> ContentState \<Rightarrow> ambient \<Rightarrow> ContentState option outcome \<times> ambient" where
  "risk_assessment_node env state a =
     error_boundary ''wrapper'' (risk_assessment_body env state a)"

subsection \<open>human_review_node\<close>

definition human_review_body ::
  "env \<Rightarrow> ContentState \<Rightarrow> ambient \<Rightarrow> ContentState outcome \<times> ambient" where
  "human_review_body env state a =
     (case review_decision a of
        Some decision \<Rightarrow>
          (Returned (no_keys\<lparr>human_approval := Some decision,
                       review_status := Some ''reviewed'',
                       reviewer_notes := Some (get_or (notes_widget a) [])\<rparr>),
           a\<lparr>review_decision := None\<rparr>)
      | None \<Rightarrow>
          (let level = get_or (risk_level state) ''low''
           in if level = ''low''
              then (Returned (no_keys\<lparr>human_approval := Some ''auto_approved'',
                                review_status := Some ''no_review_needed'',
                                reviewer_notes := Some []\<rparr>), a)
              else if button_clicked env ''app_btn''
              then (Rerun, a\<lparr>review_decision := Some ''approved''\<rparr>)
              else if button_clicked env ''rej_btn''
              then (Rerun, a\<lparr>review_decision := Some ''rejected''\<rparr>)
              else if button_clicked env ''edit_btn''
              then (Rerun, a\<lparr>review_decision := Some ''needs_editing''\<rparr>)
              else if button_clicked env ''skip_btn''
              then (Rerun, a\<lparr>review_decision := Some ''skipped''\<rparr>)
              else (Stopped, a)))"

definition human_review_node ::
  "env \<Rightarrow> ContentState \<Rightarrow> ambient \<Rightarrow> ContentState option outcome \<times> ambient" where
  "human_review_node env state a =
     error_boundary ''human_review_node'' (human_review_body env state a)"

subsection \<open>report_generation_node\<close>

definition risk_recommendations :: "string \<Rightarrow> string list" where
  "risk_recommendations level =
     (if level = ''critical''
      then [siren @ '' **URGENT**: Do not publish without thorough fact-checking'',
            magnifier @ '' **VERIFY**: All claims with primary sources'',
            warning_sign @ '' **LABEL**: Consider adding content warning if published'',
            bar_chart @ '' **MONITOR**: Track engagement and feedback closely'']
      else if level = ''high''
      then [warning_sign @ '' **CAUTION**: Additional fact-checking strongly recommended'',
            clipboard @ '' **REVIEW**: Have second opinion before publication'',
            bar_chart @ '' **TRACK**: Monitor audience response if published'']
      else if level = ''medium''
      then [clipboard @ '' **STANDARD**: Follow normal editorial review process'',
            check_mark @ '' **MONITOR**: Regular content performance tracking'']
      else [check_mark @ '' **CLEAR**: Content appears safe for standard publication''])"

text \<open>The \<open>recommendations.insert(0, ...)\<close> of the review.\<close>

definition insert_review_recommendation :: "string \<Rightarrow> string list \<Rightarrow> string list" where
  "insert_review_recommendation approval_status recs =
     (if approval_status = ''rejected''
      then (cross_mark @ '' **DO NOT PUBLISH**: Human reviewer has rejected this content'') # recs
      else if approval_status = ''needs_editing''
      then (memo @ '' **EDIT REQUIRED**: Content flagged for revision before publication'') # recs
      else if approval_status = ''approved''
      then (check_mark @ '' **HUMAN APPROVED**: Content has been reviewed and approved'') # recs
      else recs)"

definition content_type_recommendations :: "string \<Rightarrow> string list" where
  "content_type_recommendations ctype =
     (if ctype = ''news''
      then [newspaper @ '' **NEWS**: Verify publication date and source credibility'']
      else if ctype = ''research''
      then [microscope @ '' **RESEARCH**: Check for peer review and methodology'']
      else if ctype = ''social_media''
      then [mobile_phone @ '' **SOCIAL**: Higher scrutiny for viral potential'']
      else [])"

definition recommendations_of :: "ContentState \<Rightarrow> string list" where
  "recommendations_of state =
     (let level = get_or (risk_level state) ''unknown'';
          approval_status = get_or (human_approval state) ''auto_approved'';
          ctype = get_or (content_type state) ''unknown''
      in insert_review_recommendation approval_status (risk_recommendations level)
           @ content_type_recommendations ctype)"

text \<open>\<open>[e.get("name", "") for e in entities]\<close>: an entity that is no dictionary raises.\<close>

fun entity_names :: "entity list \<Rightarrow> exn + string list" where
  "entity_names [] = Inr []"
| "entity_names (EntityDict name # es) =
     (case entity_names es of Inl e \<Rightarrow> Inl e | Inr names \<Rightarrow> Inr (get_or name [] # names))"
| "entity_names (EntityOther v # es) =
     Inl (Exn AttributeError
            (quote @ ''str'' @ quote @ '' object has no attribute '' @ quote @ ''get'' @ quote))"

definition risk_colour :: "string \<Rightarrow> string" where
  "risk_colour level =
     (if level = ''critical'' then red_circle
      else if level = ''high'' then yellow_circle
      else if level = ''low'' then green_circle
      else orange_circle)"

definition report_sections :: "env \<Rightarrow> ContentState \<Rightarrow> ambient \<Rightarrow> string list \<Rightarrow> string list" where
  "report_sections env state a entities_list =
     (let level = get_or (risk_level state) ''unknown'';
          approval_status = get_or (human_approval state) ''auto_approved'';
          confidence = get_or (confidence_score state) 0;
          ctype = get_or (content_type state) ''unknown'';
          topics_list = take 3 (get_or (topics state) []);
          flags_list = get_or (misinformation_flags state) [];
          articles = get_or (similar_articles state) [];
          fact_checks = get_or (fact_check_results state) [];
          notes = (if get_or (reviewer_notes state) [] \<noteq> []
                   then get_or (reviewer_notes state) []
                   else get_or (temp_reviewer_notes a) [])
      in [''## '' @ bar_chart @ '' **Content Analysis Report**'',
          ''**Generated:** '' @ now_str env,
          ''**Analysis ID:** '' @ get_or (session_id a) ''N/A'' @ ''-''
             @ show_int (py_int (now env)),
          [],
          ''### '' @ dart @ '' **Risk Assessment**'',
          ''- **Risk Level:** '' @ upper level @ '' ('' @ risk_colour level @ '')'',
          ''- **Confidence Score:** '' @ format_percent_1 confidence,
          ''- **Verification Score:** ''
             @ format_percent_1 (get_or (verification_score state) 0),
          ''- **Flags Detected:** '' @ show_nat (length flags_list),
          [],
          ''### '' @ memo @ '' **Content Overview**'',
          ''- **Type:** '' @ title ctype,
          ''- **Language:** '' @ get_or (language state) ''Unknown'',
          ''- **Writing Style:** '' @ title (get_or (writing_style state) ''Unknown''),
          ''- **Summary:** '' @ get_or (summary state) ''No summary available'',
          []]
         @ (if entities_list \<noteq> []
            then [''### '' @ dart @ '' **Key Entities**'',
                  ''- '' @ join '', '' entities_list, []]
            else [])
         @ (if topics_list \<noteq> []
            then [''### '' @ label_tag @ '' **Topics**'', ''- '' @ join '', '' topics_list, []]
            else [])
         @ (if flags_list \<noteq> []
            then [''### '' @ warning_sign @ '' **Risk Flags**'']
                 @ map (\<lambda>flag. ''- '' @ title (replace_underscores flag)) flags_list @ [[]]
            else [])
         @ (if articles \<noteq> [] \<or> fact_checks \<noteq> []
            then [''### '' @ magnifier @ '' **External Verification**'',
                  ''- **Related Articles Found:** '' @ show_nat (length articles),
                  ''- **Fact-Check Results:** '' @ show_nat (length fact_checks), []]
            else [])
         @ (if approval_status \<noteq> ''auto_approved''
            then [''### '' @ bust @ '' **Human Review**'',
                  ''- **Status:** '' @ title (replace_underscores approval_status),
                  ''- **Reviewer Notes:** ''
                     @ (if notes \<noteq> [] then notes else ''No additional notes''), []]
            else []))"

definition report_generation_body ::
  "env \<Rightarrow> ContentState \<Rightarrow> ambient \<Rightarrow> ContentState outcome \<times> ambient" where
  "report_generation_body env state a =
     (case entity_names (get_or (entities state) []) of
        Inl e \<Rightarrow> (Raised e, a)
      | Inr names \<Rightarrow>
          (Returned
             (no_keys\<lparr>recommendations := Some (recommendations_of state),
                final_report := Some (join nl (report_sections env state a (take 5 names))),
                processing_complete := Some True,
                report_timestamp := Some (now_str env),
                processing_time := Some (now env - get_or (analysis_start_time a) (now env))\<rparr>),
           a))"

definition report_generation_node ::
  "env \<Rightarrow> ContentState \<Rightarrow> ambient \<Rightarrow> ContentState option outcome \<times> ambient" where
  "report_generation_node env state a =
     error_boundary ''wrapper'' (report_generation_body env state a)"

section \<open>The routing predicates and the graph (workflow.py)\<close>

definition route_by_content_complexity :: "ContentState \<Rightarrow> string" where
  "route_by_content_complexity state =
     (if get_or (force_human_review state) False then ''verification''
      else
        (let text_length = length (get_or (text_in state) []);
             ctype = get_or (content_type state) ''unknown''
         in if 1000 < text_length \<or> ctype = ''research'' then ''verification''
            else if ctype = ''social_media'' then ''verification''
            else ''verification''))"

text \<open>
  \<open>route_by_risk_level\<close> reads the preference \<open>analysis_speed\<close> of the session, with
  \<open>balanced\<close> when the session has no preferences or they have no such key.
\<close>

definition analysis_speed_of :: "ambient \<Rightarrow> string" where
  "analysis_speed_of a =
     (case user_preferences a of
        None \<Rightarrow> ''balanced''
      | Some prefs \<Rightarrow> get_or (map_of prefs ''analysis_speed'') ''balanced'')"

definition route_by_risk_level :: "ambient \<Rightarrow> ContentState \<Rightarrow> string" where
  "route_by_risk_level a state =
     (let level = get_or (risk_level state) ''low'';
          force_review = get_or (force_human_review state) False
      in if level \<in> set [''critical'', ''high''] \<or> force_review then ''human_review''
         else
           (let analysis_speed = analysis_speed_of a
            in if level = ''medium'' \<and> analysis_speed = ''thorough'' then ''human_review''
               else ''generate_report''))"

definition high_risk_keywords :: "string list" where
  "high_risk_keywords = [''breaking'', ''exclusive'', ''leaked'', ''secret'', ''shocking'']"

definition should_include_verification :: "ContentState \<Rightarrow> string" where
  "should_include_verification state =
     (if \<not> get_or (include_external_verification state) True then ''risk_assessment''
      else
        (let text_lower = lower (get_or (text_in state) [])
         in if list_ex (\<lambda>keyword. str_in keyword text_lower) high_risk_keywords
            then ''verification''
            else if get_or (entities state) [] \<noteq> [] then ''verification''
            else ''risk_assessment''))"

text \<open>
  The graph of \<open>create_workflow\<close>: five nodes, the entry point \<open>content_analysis\<close>, two
  conditional edges with their tables, three plain edges. The graph runs a node, merges
  its update into the state (an update \<open>None\<close> changes nothing) and follows the edge.
\<close>

datatype stage = ContentAnalysis | Verification | RiskAssessment | HumanReview | GenerateReport | END

definition run_node ::
  "env \<Rightarrow> stage \<Rightarrow> ContentState \<Rightarrow> ambient \<Rightarrow> ContentState option outcome \<times> ambient" where
  "run_node env st state a =
     (case st of
        ContentAnalysis \<Rightarrow> content_analysis_node env state a
      | Verification \<Rightarrow> verification_node env state a
      | RiskAssessment \<Rightarrow> risk_assessment_node env state a
      | HumanReview \<Rightarrow> human_review_node env state a
      | GenerateReport \<Rightarrow> report_generation_node env state a
      | END \<Rightarrow> (Returned None, a))"

definition next_stage :: "ambient \<Rightarrow> ContentState \<Rightarrow> stage \<Rightarrow> stage" where
  "next_stage a state st =
     (case st of
        ContentAnalysis \<Rightarrow>
          (if should_include_verification state = ''verification'' then Verification
           else RiskAssessment)
      | Verification \<Rightarrow> RiskAssessment
      | RiskAssessment \<Rightarrow>
          (if route_by_risk_level a state = ''human_review'' then HumanReview
           else GenerateReport)
      | HumanReview \<Rightarrow> GenerateReport
      | GenerateReport \<Rightarrow> END
      | END \<Rightarrow> END)"

definition apply_update :: "ContentState \<Rightarrow> ContentState option \<Rightarrow> ContentState" where
  "apply_update state u = (case u of None \<Rightarrow> state | Some upd \<Rightarrow> merge state upd)"

text \<open>
  How a run ends: with the final state, halted inside a stage (with the state
  accumulated before it), or with an exception out of a stage.
\<close>

datatype run_result =
    Completed ContentState
  | Halted stage ContentState
  | Failed stage exn ContentState

fun rank :: "stage \<Rightarrow> nat" where
  "rank ContentAnalysis = 5"
| "rank Verification = 4"
| "rank RiskAssessment = 3"
| "rank HumanReview = 2"
| "rank GenerateReport = 1"
| "rank END = 0"

function run_from :: "env \<Rightarrow> stage \<Rightarrow> ContentState \<Rightarrow> ambient \<Rightarrow> run_result \<times> ambient" where
  "run_from env st state a =
     (if st = END then (Completed state, a)
      else
        (case run_node env st state a of
           (Returned u, a') \<Rightarrow>
             run_from env (next_stage a' (apply_update state u) st) (apply_update state u) a'
         | (Raised e, a') \<Rightarrow> (Failed st e state, a')
         | (Stopped, a') \<Rightarrow> (Halted st state, a')
         | (Rerun, a') \<Rightarrow> (Halted st state, a')))"
  by pat_completeness auto
termination
  by (relation "measure (\<lambda>(env, st, state, a). rank st)")
    (auto simp: next_stage_def split: stage.splits)

declare run_from.simps [simp del]

text \<open>The final state of a run that completed.\<close>

definition final_state :: "run_result \<Rightarrow> ContentState option" where
  "final_state r = (case r of Completed state \<Rightarrow> Some state | _ \<Rightarrow> None)"

text \<open>\<open>workflow_app.invoke(initial_state)\<close>.\<close>

definition invoke :: "env \<Rightarrow> ContentState \<Rightarrow> ambient \<Rightarrow> run_result \<times> ambient" where
  "invoke env initial_state a = run_from env ContentAnalysis initial_state a"

section \<open>Concrete inputs\<close>

text \<open>A client that raises the same error at every invocation.\<close>

definition always_fails :: "string \<Rightarrow> llm" where
  "always_fails msg = (\<lambda>prompt i. Throws (Exn OtherException msg))"

text \<open>
  A client that is rate-limited, then loses the connection, then is rate-limited again,
  then answers with white space only.
\<close>

definition flaky_llm :: llm where
  "flaky_llm = (\<lambda>prompt i.
     if i = 0 then Throws (Exn OtherException ''Error code: 429 - too many requests'')
     else if i = 1 then Throws (Exn OtherException ''connection reset'')
     else if i = 2 then Throws (Exn OtherException ''Rate limit exceeded'')
     else Content ''   '')"

text \<open>A session as \<open>SessionManager.init_session\<close> leaves it, and one set to thorough.\<close>

definition fresh_session :: ambient where
  "fresh_session =
     \<lparr>review_decision = None, notes_widget = None, temp_reviewer_notes = None,
      user_preferences = Some [(''analysis_speed'', ''balanced'')],
      session_id = Some ''a1b2c3d4'', analysis_start_time = Some 1000,
      error_log = [], page_errors = [], api_calls = []\<rparr>"

definition thorough_session :: ambient where
  "thorough_session = fresh_session\<lparr>user_preferences := Some [(''analysis_speed'', ''thorough'')]\<rparr>"

text \<open>
  Collaborators: a client whose reply is prose, which the decoder refuses; lookups that
  find nothing; no button clicked.
\<close>

definition prose_env :: env where
  "prose_env =
     \<lparr>llm_client = Some (\<lambda>prompt i. Content ''Sorry, I cannot help with that.''),
      loads_analysis = (\<lambda>s. JsonError ''Expecting value: line 1 column 1 (char 0)''),
      loads_risk = (\<lambda>s. JsonError ''Expecting value: line 1 column 1 (char 0)''),
      jitter = (\<lambda>i. 0),
      cached_news_search = (\<lambda>q. Inr []),
      cached_fact_check = (\<lambda>q. Inr []),
      button_clicked = (\<lambda>k. False),
      now = 1012,
      now_str = ''2025-01-01 12:00:00''\<rparr>"

definition an_article :: article where
  "an_article =
     \<lparr>title_of = ''Council approves budget'', description = ''The vote was unanimous.'',
      article_url = ''https://example.org/a'', publishedAt = ''2025-01-01T00:00:00Z''\<rparr>"

definition rated :: "string \<Rightarrow> fact_check" where
  "rated r =
     \<lparr>claim_text = ''The budget doubled.'', claimant = ''A councillor'', rating = Some r,
      fact_check_url = ''https://example.org/f''\<rparr>"

text \<open>The same collaborators, with a news search that finds one article.\<close>

definition news_env :: env where
  "news_env = prose_env\<lparr>cached_news_search := (\<lambda>q. Inr [an_article])\<rparr>"

text \<open>A state with a sentence of 50 characters, no entities and no topics.\<close>

definition fifty_chars :: string where
  "fifty_chars = ''The city council met on Monday to discuss budgets.''"

definition scenario_b :: ContentState where
  "scenario_b = no_keys\<lparr>text_in := Some fifty_chars, entities := Some [], topics := Some []\<rparr>"

text \<open>A state whose risk is medium, with no review forced.\<close>

definition medium_risk :: ContentState where
  "medium_risk =
     no_keys\<lparr>text_in := Some fifty_chars, force_human_review := Some False,
       risk_level := Some ''medium''\<rparr>"

text \<open>A state whose text is white space, with no entities and no topics.\<close>

definition blank_text :: ContentState where
  "blank_text = no_keys\<lparr>text_in := Some ''    '', entities := Some [], topics := Some []\<rparr>"

text \<open>A state of high risk that the reviewer skipped.\<close>

definition skipped_high :: ContentState where
  "skipped_high =
     no_keys\<lparr>text_in := Some fifty_chars, risk_level := Some ''high'',
       human_approval := Some ''skipped'', review_status := Some ''reviewed'',
       reviewer_notes := Some []\<rparr>"

text \<open>A state of high risk that the reviewer rejected.\<close>

definition rejected_high :: ContentState where
  "rejected_high =
     no_keys\<lparr>text_in := Some fifty_chars, risk_level := Some ''high'',
       human_approval := Some ''rejected'', review_status := Some ''reviewed'',
       reviewer_notes := Some ''fails fact check''\<rparr>"

text \<open>
  Collaborators whose client answers every prompt with an assessment of low risk, which
  the decoder reads as an object (with none of the keys of the analysis).
\<close>

definition risk_json_low :: string where
  \<open>risk_json_low = ''{"risk_level":"low","confidence":0.9,"reason":"benign"}''\<close>

definition low_risk_env :: env where
  "low_risk_env =
     prose_env\<lparr>
       llm_client := Some (\<lambda>prompt i. Content risk_json_low),
       loads_analysis := (\<lambda>s.
          if s = risk_json_low
          then JsonObject \<lparr>reply_content_type = None, reply_language = None,
                 reply_topics = None, reply_entities = None, reply_sentiment = None,
                 reply_summary = None, reply_key_claims = None, reply_writing_style = None\<rparr>
          else JsonError ''Expecting value: line 1 column 1 (char 0)''),
       loads_risk := (\<lambda>s.
          if s = risk_json_low
          then JsonObject \<lparr>reply_risk_level = Some ''low'', reply_confidence = Some (9 / 10),
                 reply_reason = Some ''benign''\<rparr>
          else JsonError ''Expecting value: line 1 column 1 (char 0)'')\<rparr>"

text \<open>The initial state that \<open>perform_content_analysis\<close> builds, without and with a forced review.\<close>

definition unforced_input :: ContentState where
  "unforced_input =
     no_keys\<lparr>text_in := Some fifty_chars, source_url := Some [],
       force_human_review := Some False, include_external_verification := Some True\<rparr>"

definition forced_input :: ContentState where
  "forced_input = unforced_input\<lparr>force_human_review := Some True\<rparr>"

text \<open>
  The updates that the content analysis and the risk assessment return with these
  collaborators, and the state after both.
\<close>

definition object_analysis :: ContentState where
  "object_analysis =
     no_keys\<lparr>content_type := Some ''unknown'', language := Some ''en'', topics := Some [],
       entities := Some [], sentiment := Some [(''neutral'', 1), (''confidence'', 1 / 2)],
       summary := Some [], key_claims := Some [], writing_style := Some ''unknown''\<rparr>"

definition low_assessment :: ContentState where
  "low_assessment =
     no_keys\<lparr>risk_level := Some ''low'', risk_score := Some (1 / 10),
       confidence_score := Some (9 / 10), risk_reason := Some ''benign'',
       misinformation_flags := Some [], flags_detected := Some 0\<rparr>"

definition assessed :: "ContentState \<Rightarrow> ContentState" where
  "assessed input = merge (merge input object_analysis) low_assessment"

text \<open>The error of the decoder on prose.\<close>

definition decode_error :: exn where
  "decode_error = Exn JSONDecodeError ''Expecting value: line 1 column 1 (char 0)''"

text \<open>A state of high risk after the risk assessment, and a session with a decision.\<close>

definition high_risk :: ContentState where
  "high_risk =
     no_keys\<lparr>text_in := Some fifty_chars, force_human_review := Some False,
       risk_level := Some ''high'', summary := Some ''A claim about the budget.''\<rparr>"

definition decided_session :: ambient where
  "decided_session =
     fresh_session\<lparr>review_decision := Some ''rejected'',
       notes_widget := Some ''fails fact check''\<rparr>"

section \<open>Readings of the specification, for comparison with the code\<close>


section \<open>The retry loop\<close>

text \<open>
  When every attempt fails, the loop raises the error of the last attempt, after one
  pause for each attempt but the last; this holds for every number of attempts.
\<close>

lemma llm_attempts_all_fail:
  assumes "\<forall>i. a \<le> i \<and> i < mx \<longrightarrow> invoke_stripped (f i) = Inl (e i)" and "a < mx"
  shows "llm_attempts f jit mx [a..<mx] =
           (Inl (e (mx - 1)), map (\<lambda>i. pause_after jit (e i) i) [a..<mx - 1])"
  using assms
proof (induction "mx - a" arbitrary: a)
  case 0
  then show ?case by simp
next
  case (Suc n)
  have fa: "invoke_stripped (f a) = Inl (e a)" using Suc.prems by simp
  have up: "[a..<mx] = a # [Suc a..<mx]" using Suc.prems by (simp add: upt_conv_Cons)
  show ?case
  proof (cases "Suc a < mx")
    case True
    have n: "n = mx - Suc a" using Suc.hyps by simp
    have ih: "llm_attempts f jit mx [Suc a..<mx] =
           (Inl (e (mx - 1)), map (\<lambda>i. pause_after jit (e i) i) [Suc a..<mx - 1])"
      using Suc.hyps(1)[OF n] Suc.prems True by simp
    have up2: "[a..<mx - 1] = a # [Suc a..<mx - 1]" using True by (simp add: upt_conv_Cons)
    have lt: "int a < int mx - 1" using True by simp
    show ?thesis
      by (simp only: up llm_attempts.simps fa sum.case lt if_True ih prod.case up2 list.map)
  next
    case False
    then have eq: "mx = Suc a" using Suc.prems by simp
    show ?thesis using fa by (simp add: eq)
  qed
qed

text \<open>When attempt \<open>k\<close> is the first to succeed, its reply is returned after \<open>k\<close> pauses.\<close>

lemma llm_attempts_success_at:
  assumes "\<forall>i. a \<le> i \<and> i < k \<longrightarrow> invoke_stripped (f i) = Inl (e i)"
    and "invoke_stripped (f k) = Inr r" and "a \<le> k" and "k < mx"
  shows "llm_attempts f jit mx [a..<mx] =
           (Inr r, map (\<lambda>i. pause_after jit (e i) i) [a..<k])"
  using assms
proof (induction "k - a" arbitrary: a)
  case 0
  then have "a = k" by simp
  then show ?case using 0 by (simp add: upt_conv_Cons)
next
  case (Suc n)
  have ak: "a < k" using Suc.hyps by simp
  have fa: "invoke_stripped (f a) = Inl (e a)" using Suc.prems ak by simp
  have up: "[a..<mx] = a # [Suc a..<mx]" using Suc.prems ak by (simp add: upt_conv_Cons)
  have n: "n = k - Suc a" using Suc.hyps by simp
  have ih: "llm_attempts f jit mx [Suc a..<mx] =
           (Inr r, map (\<lambda>i. pause_after jit (e i) i) [Suc a..<k])"
    using Suc.hyps(1)[OF n] Suc.prems ak by simp
  have up2: "[a..<k] = a # [Suc a..<k]" using ak by (simp add: upt_conv_Cons)
  have lt: "int a < int mx - 1" using ak Suc.prems by simp
  show ?case
    by (simp only: up llm_attempts.simps fa sum.case lt if_True ih prod.case up2 list.map)
qed

lemma upt_4: "[0..<4] = [0, 1, 2, Suc 2]"
  by (simp add: upt_rec numeral_eq_Suc)

text \<open>The call with the default of four attempts, attempt by attempt.\<close>

lemma call_llm_with_retry_4:
  "call_llm_with_retry llm message jit 4 =
     (case invoke_stripped (llm message 0) of
        Inr r \<Rightarrow> (Inr r, [])
      | Inl e0 \<Rightarrow>
          (case invoke_stripped (llm message 1) of
             Inr r \<Rightarrow> (Inr r, [pause_after jit e0 0])
           | Inl e1 \<Rightarrow>
               (case invoke_stripped (llm message 2) of
                  Inr r \<Rightarrow> (Inr r, [pause_after jit e0 0, pause_after jit e1 1])
                | Inl e2 \<Rightarrow>
                    (case invoke_stripped (llm message 3) of
                       Inr r \<Rightarrow>
                         (Inr r, [pause_after jit e0 0, pause_after jit e1 1, pause_after jit e2 2])
                     | Inl e3 \<Rightarrow>
                         (Inl e3, [pause_after jit e0 0, pause_after jit e1 1, pause_after jit e2 2])))))"
  by (simp add: call_llm_with_retry_def upt_4 split: sum.splits)

lemma pause_after_bounds:
  assumes "0 \<le> jit i" and "jit i \<le> 1" and "i < 4"
  shows "if is_rate_limited e
         then 2 * 2 ^ i \<le> pause_after jit e i \<and> pause_after jit e i \<le> 2 * 2 ^ i + 1
              \<and> pause_after jit e i \<le> 60
         else pause_after jit e i = 1"
proof -
  have "i = 0 \<or> i = 1 \<or> i = 2 \<or> i = 3" using assms(3) by arith
  then show ?thesis using assms(1,2) by (auto simp: pause_after_def)
qed

lemmas lower_simps = lower_def lower_char_def ascii_upper_def ascii_lower_def

lemma boom_not_rate_limited: "\<not> is_rate_limited (Exn OtherException ''boom'')"
  by (simp add: is_rate_limited_def lower_simps)

lemma flaky_llm_0:
  "invoke_stripped (flaky_llm p 0) =
     Inl (Exn OtherException ''Error code: 429 - too many requests'')"
  by (simp add: flaky_llm_def invoke_stripped_def)

lemma flaky_llm_1:
  "invoke_stripped (flaky_llm p 1) = Inl (Exn OtherException ''connection reset'')"
  by (simp add: flaky_llm_def invoke_stripped_def)

lemma flaky_llm_2:
  "invoke_stripped (flaky_llm p 2) = Inl (Exn OtherException ''Rate limit exceeded'')"
  by (simp add: flaky_llm_def invoke_stripped_def)

lemma flaky_llm_3:
  "invoke_stripped (flaky_llm p 3) = Inl (Exn ValueError ''Empty LLM response'')"
  by (simp add: flaky_llm_def invoke_stripped_def strip_def is_space_def)

lemma flaky_llm_rate_limited:
  "is_rate_limited (Exn OtherException ''Error code: 429 - too many requests'')"
  "\<not> is_rate_limited (Exn OtherException ''connection reset'')"
  "is_rate_limited (Exn OtherException ''Rate limit exceeded'')"
  by (simp_all add: is_rate_limited_def lower_simps)

section \<open>Running the graph\<close>

lemma run_from_END: "run_from env END state a = (Completed state, a)"
  by (subst run_from.simps) simp

lemma run_from_step:
  assumes "st \<noteq> END" and "run_node env st state a = (Returned u, a')"
  shows "run_from env st state a
           = run_from env (next_stage a' (apply_update state u) st) (apply_update state u) a'"
  using assms by (subst run_from.simps) simp

lemma run_from_halts:
  assumes "st \<noteq> END" and "run_node env st state a = (r, a')" and "r = Stopped \<or> r = Rerun"
  shows "run_from env st state a = (Halted st state, a')"
  using assms by (subst run_from.simps) auto

lemma error_boundary_never_raises: "fst (error_boundary name r) \<noteq> Raised e"
  by (cases r; cases "fst r") (auto simp: error_boundary_def)

lemma error_boundary_halts:
  "fst (error_boundary name r) = Stopped \<longleftrightarrow> fst r = Stopped"
  "fst (error_boundary name r) = Rerun \<longleftrightarrow> fst r = Rerun"
  by (cases r; cases "fst r"; auto simp: error_boundary_def)+

lemma run_node_never_raises: "fst (run_node env st state a) \<noteq> Raised e"
  by (cases st)
     (simp_all add: run_node_def content_analysis_node_def verification_node_def
        risk_assessment_node_def human_review_node_def report_generation_node_def
        error_boundary_never_raises)

lemma report_generation_body_no_halt:
  "fst (report_generation_body env state a) \<noteq> Stopped"
  "fst (report_generation_body env state a) \<noteq> Rerun"
  by (simp_all add: report_generation_body_def split: sum.splits)

lemma report_generation_node_returns:
  "\<exists>u. report_generation_node env state a = (Returned u, snd (report_generation_node env state a))"
  using report_generation_body_no_halt[of env state a]
  by (cases "report_generation_body env state a"; cases "fst (report_generation_body env state a)")
     (auto simp: report_generation_node_def error_boundary_def)

lemma run_from_GenerateReport:
  assumes "report_generation_node env state a = (Returned u, a')"
  shows "run_from env GenerateReport state a = (Completed (apply_update state u), a')"
proof -
  have "run_node env GenerateReport state a = (Returned u, a')"
    using assms by (simp add: run_node_def)
  then show ?thesis
    by (simp add: run_from_step next_stage_def run_from_END)
qed

lemma run_never_fails: "fst (run_from env st state a) \<noteq> Failed st' e state'"
proof (induction env st state a rule: run_from.induct)
  case (1 env st state a)
  show ?case
  proof (cases "st = END")
    case True
    then show ?thesis by (simp add: run_from_END)
  next
    case False
    obtain r a' where n: "run_node env st state a = (r, a')" by (cases "run_node env st state a")
    have nr: "\<And>x. r \<noteq> Raised x" using run_node_never_raises[of env st state a] n by auto
    show ?thesis
    proof (cases r)
      case (Returned u)
      then show ?thesis
        using 1 n False
        by (simp add: run_from_step)
    next
      case (Raised x)
      then show ?thesis using nr by simp
    next
      case Stopped
      then show ?thesis using run_from_halts[OF False n] by simp
    next
      case Rerun
      then show ?thesis using run_from_halts[OF False n] by simp
    qed
  qed
qed

section \<open>The report stage\<close>

lemma risk_recommendations_not_empty: "risk_recommendations level \<noteq> []"
  by (simp add: risk_recommendations_def)

text \<open>What the report stage returns, when it returns an update.\<close>

lemma report_generation_node_update:
  assumes "report_generation_node env state a = (Returned (Some u), a')"
  shows "\<exists>names. entity_names (get_or (entities state) []) = Inr names
           \<and> recommendations u = Some (recommendations_of state)
           \<and> final_report u = Some (join nl (report_sections env state a (take 5 names)))
           \<and> processing_complete u = Some True"
  using assms
  by (cases "entity_names (get_or (entities state) [])")
     (auto simp: report_generation_node_def report_generation_body_def error_boundary_def
        no_keys_def)

lemmas report_node_simps = report_generation_node_def report_generation_body_def
  error_boundary_def returned_update_def

section \<open>The concrete inputs\<close>

lemmas example_state_simps = scenario_b_def blank_text_def fifty_chars_def no_keys_def get_or_def

lemmas env_simps = low_risk_env_def prose_env_def news_env_def

lemmas input_simps = unforced_input_def forced_input_def fifty_chars_def no_keys_def get_or_def

lemma strip_risk_json_low: "strip risk_json_low = risk_json_low"
  by (simp add: strip_def risk_json_low_def is_space_def)

lemma extract_json_risk_json_low: "extract_json risk_json_low = risk_json_low"
  by (simp add: extract_json_def find_char_def rfind_char_def risk_json_low_def)

lemma call_llm_low_risk:
  "fst (call_llm_with_retry (\<lambda>prompt i. Content risk_json_low) p jit 4) = Inr risk_json_low"
proof -
  have "risk_json_low \<noteq> []" by (simp add: risk_json_low_def)
  then show ?thesis
    by (simp add: call_llm_with_retry_4 invoke_stripped_def strip_risk_json_low)
qed

lemma content_analysis_low_risk_env:
  "text_in state = Some t \<Longrightarrow>
   content_analysis_node low_risk_env state a = (Returned (Some object_analysis), a)"
  by (simp add: content_analysis_node_def content_analysis_body_def error_boundary_def
      env_simps call_llm_low_risk extract_json_risk_json_low get_or_def object_analysis_def)

lemma risk_assessment_low_risk_env:
  "text_in state = Some t \<Longrightarrow>
   risk_assessment_node low_risk_env state a = (Returned (Some low_assessment), a)"
  by (simp add: risk_assessment_node_def risk_assessment_body_def risk_assessment_try_def
      error_boundary_def env_simps low_assessment_def)

lemmas merge_simps = apply_update_def merge_def overwrite_def

text \<open>
  With these collaborators a run on the sentence of 50 characters goes from the content
  analysis to the risk assessment and on to the stage that \<open>route_by_risk_level\<close> names.
\<close>

lemma low_risk_run_prefix:
  assumes "text_in input = Some fifty_chars"
  shows "invoke low_risk_env input a
           = run_from low_risk_env (next_stage a (assessed input) RiskAssessment)
               (assessed input) a"
proof -
  have n1: "run_node low_risk_env ContentAnalysis input a = (Returned (Some object_analysis), a)"
    by (simp add: run_node_def content_analysis_low_risk_env[OF assms])
  have v: "should_include_verification (merge input object_analysis) = ''risk_assessment''"
    using assms
    by (simp add: should_include_verification_def merge_simps object_analysis_def no_keys_def
        get_or_def fifty_chars_def high_risk_keywords_def lower_simps)
  have r1: "next_stage a (apply_update input (Some object_analysis)) ContentAnalysis
              = RiskAssessment"
    using v by (simp add: next_stage_def apply_update_def)
  have t1: "text_in (merge input object_analysis) = Some fifty_chars"
    using assms by (simp add: merge_simps object_analysis_def no_keys_def)
  have n2: "run_node low_risk_env RiskAssessment (merge input object_analysis) a
              = (Returned (Some low_assessment), a)"
    by (simp add: run_node_def risk_assessment_low_risk_env[OF t1])
  show ?thesis
    unfolding invoke_def
    using run_from_step[OF _ n1] run_from_step[OF _ n2] r1
    by (simp add: assessed_def apply_update_def)
qed

text \<open>The update of the report stage leaves the keys of the review alone.\<close>

lemma report_update_keeps_review:
  assumes "report_generation_node env state a = (Returned u, a')"
  shows "human_approval (apply_update state u) = human_approval state
       \<and> review_status (apply_update state u) = review_status state"
  using assms
  by (cases "entity_names (get_or (entities state) [])")
     (auto simp: report_generation_node_def report_generation_body_def error_boundary_def
        no_keys_def merge_simps)

section \<open>C1: the suspension at the human review\<close>

text \<open>
  A risk of \<open>high\<close> or \<open>critical\<close>, or a forced review, is routed to the human review,
  whatever the session is.
\<close>

lemma review_required_routes_to_human_review:
  assumes "risk_level state \<in> {Some ''high'', Some ''critical''}
           \<or> get_or (force_human_review state) False"
  shows "route_by_risk_level a state = ''human_review''
       \<and> next_stage a state RiskAssessment = HumanReview"
  using assms by (auto simp: next_stage_def route_by_risk_level_def get_or_def)

text \<open>
  With no decision in the session and a risk that is not \<open>low\<close>, the stage halts the
  script and returns no update: the run ends halted in the human review, with the state
  as it was and before the report stage. A click on a button stores the decision in the
  session and halts as well.
\<close>

lemma human_review_halts:
  assumes "review_decision a = None" and "get_or (risk_level state) ''low'' \<noteq> ''low''"
  shows "\<exists>a'. run_from env HumanReview state a = (Halted HumanReview state, a')
             \<and> returned_update (fst (human_review_node env state a)) = None"
proof -
  have "fst (human_review_node env state a) \<in> {Stopped, Rerun}"
    using assms
    by (simp add: human_review_node_def human_review_body_def error_boundary_def Let_def)
  then obtain r a' where n: "human_review_node env state a = (r, a')"
    and h: "r = Stopped \<or> r = Rerun"
    by (cases "human_review_node env state a") auto
  have "run_node env HumanReview state a = (r, a')"
    using n by (simp add: run_node_def)
  then have "run_from env HumanReview state a = (Halted HumanReview state, a')"
    using run_from_halts h by simp
  then show ?thesis
    using n h by (auto simp: returned_update_def)
qed

text \<open>
  With a decision in the session the stage returns at once: the decision becomes
  \<open>human_approval\<close>, the notes are folded in, and the decision is taken out of the session.
\<close>

lemma human_review_resumes:
  assumes "review_decision a = Some decision"
  shows "human_review_node env state a
           = (Returned (Some (no_keys\<lparr>human_approval := Some decision,
                                review_status := Some ''reviewed'',
                                reviewer_notes := Some (get_or (notes_widget a) [])\<rparr>)),
              a\<lparr>review_decision := None\<rparr>)"
  using assms by (simp add: human_review_node_def human_review_body_def error_boundary_def)

lemma high_risk_run_halts_once:
  "next_stage fresh_session high_risk RiskAssessment = HumanReview
   \<and> run_from prose_env HumanReview high_risk fresh_session
       = (Halted HumanReview high_risk, fresh_session)
   \<and> final_state (fst (run_from prose_env HumanReview high_risk decided_session)) \<noteq> None
   \<and> Option.bind (final_state (fst (run_from prose_env HumanReview high_risk decided_session)))
        human_approval = Some ''rejected''"
proof -
  have r: "next_stage fresh_session high_risk RiskAssessment = HumanReview"
    by (simp add: next_stage_def route_by_risk_level_def high_risk_def no_keys_def get_or_def)
  have n: "run_node prose_env HumanReview high_risk fresh_session = (Stopped, fresh_session)"
    by (simp add: run_node_def human_review_node_def human_review_body_def error_boundary_def
        Let_def high_risk_def no_keys_def get_or_def fresh_session_def prose_env_def)
  have h: "run_from prose_env HumanReview high_risk fresh_session
             = (Halted HumanReview high_risk, fresh_session)"
    using run_from_halts[OF _ n] by simp
  have d: "review_decision decided_session = Some ''rejected''"
    by (simp add: decided_session_def)
  define u where "u = no_keys\<lparr>human_approval := Some ''rejected'',
                        review_status := Some ''reviewed'',
                        reviewer_notes := Some (get_or (notes_widget decided_session) [])\<rparr>"
  have n2: "run_node prose_env HumanReview high_risk decided_session
              = (Returned (Some u), decided_session\<lparr>review_decision := None\<rparr>)"
    by (simp add: run_node_def human_review_resumes[OF d] u_def)
  obtain v where n3: "report_generation_node prose_env (apply_update high_risk (Some u))
                        (decided_session\<lparr>review_decision := None\<rparr>)
     = (Returned v, snd (report_generation_node prose_env (apply_update high_risk (Some u))
                           (decided_session\<lparr>review_decision := None\<rparr>)))"
    using report_generation_node_returns by blast
  have run: "fst (run_from prose_env HumanReview high_risk decided_session)
               = Completed (apply_update (apply_update high_risk (Some u)) v)"
    using run_from_step[OF _ n2] run_from_GenerateReport[OF n3]
    by (simp add: next_stage_def)
  have k: "human_approval (apply_update high_risk (Some u)) = Some ''rejected''"
    by (simp add: u_def merge_simps no_keys_def)
  have "human_approval (apply_update (apply_update high_risk (Some u)) v) = Some ''rejected''"
    using report_update_keeps_review[OF n3] k by simp
  then show ?thesis
    using r h run by (simp add: final_state_def)
qed

lemma assessed_forced_keys:
  "risk_level (assessed forced_input) = Some ''low''"
  "force_human_review (assessed forced_input) = Some True"
  "human_approval (assessed forced_input) = None"
  by (simp_all add: assessed_def merge_simps low_assessment_def object_analysis_def
      forced_input_def unforced_input_def no_keys_def)

text \<open>
  C1 on the code, at a forced review of content whose risk is low. The edge leads to the
  human review, but the stage looks at the risk only, approves by itself and returns:
  the run completes, without a halt, with \<open>human_approval = auto_approved\<close>.
\<close>

theorem forced_review_of_low_risk_does_not_suspend:
  "force_human_review forced_input = Some True
   \<and> route_by_risk_level fresh_session (assessed forced_input) = ''human_review''
   \<and> human_review_node low_risk_env (assessed forced_input) fresh_session
       = (Returned (Some (no_keys\<lparr>human_approval := Some ''auto_approved'',
                            review_status := Some ''no_review_needed'',
                            reviewer_notes := Some []\<rparr>)), fresh_session)
   \<and> final_state (fst (invoke low_risk_env forced_input fresh_session)) \<noteq> None
   \<and> Option.bind (final_state (fst (invoke low_risk_env forced_input fresh_session)))
        human_approval = Some ''auto_approved''"
proof -
  have t: "text_in forced_input = Some fifty_chars"
    and fi: "force_human_review forced_input = Some True"
    by (simp_all add: forced_input_def unforced_input_def no_keys_def)
  have f: "get_or (force_human_review (assessed forced_input)) False"
    by (simp add: assessed_forced_keys get_or_def)
  have r: "route_by_risk_level fresh_session (assessed forced_input) = ''human_review''"
    and g: "next_stage fresh_session (assessed forced_input) RiskAssessment = HumanReview"
    using review_required_routes_to_human_review[of "assessed forced_input" fresh_session] f
    by simp_all
  define u where "u = no_keys\<lparr>human_approval := Some ''auto_approved'',
                        review_status := Some ''no_review_needed'',
                        reviewer_notes := Some []\<rparr>"
  have n: "human_review_node low_risk_env (assessed forced_input) fresh_session
             = (Returned (Some u), fresh_session)"
    by (simp add: human_review_node_def human_review_body_def error_boundary_def Let_def
        assessed_forced_keys get_or_def fresh_session_def u_def)
  have n2: "run_node low_risk_env HumanReview (assessed forced_input) fresh_session
              = (Returned (Some u), fresh_session)"
    using n by (simp add: run_node_def)
  obtain v where n3: "report_generation_node low_risk_env
                        (apply_update (assessed forced_input) (Some u)) fresh_session
     = (Returned v, snd (report_generation_node low_risk_env
                           (apply_update (assessed forced_input) (Some u)) fresh_session))"
    using report_generation_node_returns by blast
  have run: "fst (invoke low_risk_env forced_input fresh_session)
               = Completed (apply_update (apply_update (assessed forced_input) (Some u)) v)"
    using low_risk_run_prefix[OF t, of fresh_session] g run_from_step[OF _ n2]
      run_from_GenerateReport[OF n3]
    by (simp add: next_stage_def)
  have k: "human_approval (apply_update (assessed forced_input) (Some u)) = Some ''auto_approved''"
    by (simp add: u_def merge_simps no_keys_def)
  have "human_approval (apply_update (apply_update (assessed forced_input) (Some u)) v)
          = Some ''auto_approved''"
    using report_update_keeps_review[OF n3] k by simp
  then show ?thesis
    using fi r n run by (simp add: final_state_def u_def)
qed

section \<open>C2: the verification score\<close>

lemma verification_score_in_unit_interval:
  "0 \<le> verification_score_of articles fact_checks
   \<and> verification_score_of articles fact_checks \<le> 1"
  by (simp add: verification_score_of_def Let_def)


lemmas rating_simps = ratings_of_def rated_def positive_rating_def negative_rating_def
  get_or_def lower_simps



text \<open>
  A rating \<open>Incorrect\<close> contains \<open>correct\<close>: the first rule of the fact checks
  matches it, and it earns the bonus.
\<close>

lemma incorrect_contains_correct:
  "positive_rating (lower ''Incorrect'')
   \<and> verification_score_of [an_article] [rated ''Incorrect''] = 4 / 5"
  by (simp add: verification_score_of_def Let_def rating_simps)

section \<open>C3: the retries of the LLM call\<close>

text \<open>
  C3, as the code has it. With the four attempts of the content analysis, when every
  attempt fails the call makes all four, pauses three times and raises the error of the
  fourth attempt. The pause after a failure whose text contains \<open>429\<close> or \<open>rate\<close> is
  \<open>2 * 2 ^ attempt\<close> seconds plus a jitter of at most one second, at most 60 seconds; the
  pause after any other failure (an empty reply included) is one second. A failure of
  the other kind is so retried three times, not once.
\<close>

theorem call_llm_with_retry_policy:
  assumes "invoke_stripped (llm message 0) = Inl e0"
    and "invoke_stripped (llm message 1) = Inl e1"
    and "invoke_stripped (llm message 2) = Inl e2"
    and "invoke_stripped (llm message 3) = Inl e3"
    and "\<forall>i. 0 \<le> jit i \<and> jit i \<le> 1"
  shows "\<exists>p0 p1 p2.
           call_llm_with_retry llm message jit 4 = (Inl e3, [p0, p1, p2])
         \<and> (if is_rate_limited e0 then 2 \<le> p0 \<and> p0 \<le> 3 else p0 = 1)
         \<and> (if is_rate_limited e1 then 4 \<le> p1 \<and> p1 \<le> 5 else p1 = 1)
         \<and> (if is_rate_limited e2 then 8 \<le> p2 \<and> p2 \<le> 9 else p2 = 1)
         \<and> p0 \<le> 60 \<and> p1 \<le> 60 \<and> p2 \<le> 60"
proof -
  have j: "\<And>i. 0 \<le> jit i" "\<And>i. jit i \<le> 1" using assms(5) by auto
  have b0: "if is_rate_limited e0 then 2 \<le> pause_after jit e0 0 \<and> pause_after jit e0 0 \<le> 3
            else pause_after jit e0 0 = 1"
    using pause_after_bounds[of jit 0 e0] j by (simp split: if_splits)
  have b1: "if is_rate_limited e1 then 4 \<le> pause_after jit e1 1 \<and> pause_after jit e1 1 \<le> 5
            else pause_after jit e1 1 = 1"
    using pause_after_bounds[of jit 1 e1] j by (simp split: if_splits)
  have b2: "if is_rate_limited e2 then 8 \<le> pause_after jit e2 2 \<and> pause_after jit e2 2 \<le> 9
            else pause_after jit e2 2 = 1"
    using pause_after_bounds[of jit 2 e2] j by (simp split: if_splits)
  have c: "pause_after jit e0 0 \<le> 60" "pause_after jit e1 1 \<le> 60" "pause_after jit e2 2 \<le> 60"
    by (simp_all add: pause_after_def)
  have r: "call_llm_with_retry llm message jit 4 =
             (Inl e3, [pause_after jit e0 0, pause_after jit e1 1, pause_after jit e2 2])"
    using assms(1-4) by (simp add: call_llm_with_retry_4)
  show ?thesis using r b0 b1 b2 c by blast
qed

theorem call_llm_with_retry_policy_witness:
  "\<exists>p0 p1 p2.
     call_llm_with_retry flaky_llm ''prompt'' (\<lambda>i. 1 / 2) 4 =
       (Inl (Exn ValueError ''Empty LLM response''), [p0, p1, p2])
     \<and> 2 \<le> p0 \<and> p0 \<le> 3 \<and> p1 = 1 \<and> 8 \<le> p2 \<and> p2 \<le> 9"
proof -
  have jit: "\<forall>i::nat. (0::rat) \<le> 1 / 2 \<and> (1 / 2 :: rat) \<le> 1" by simp
  from call_llm_with_retry_policy[where llm = flaky_llm and message = "''prompt''"
      and jit = "\<lambda>i. 1 / 2", OF flaky_llm_0 flaky_llm_1 flaky_llm_2 flaky_llm_3 jit]
  show ?thesis by (simp add: flaky_llm_rate_limited) blast
qed

text \<open>
  The claim as the spec words it fails: an error that is not a rate limit is not
  surfaced after one retry. A client that always raises \<open>boom\<close> is invoked four times,
  with three pauses of one second, before the error reaches the caller.
\<close>

theorem other_failure_retried_three_times:
  "\<not> is_rate_limited (Exn OtherException ''boom'')
   \<and> call_llm_with_retry (always_fails ''boom'') ''prompt'' (\<lambda>i. 0) 4 =
       (Inl (Exn OtherException ''boom''), [1, 1, 1])
   \<and> length (snd (call_llm_with_retry (always_fails ''boom'') ''prompt'' (\<lambda>i. 0) 4)) \<noteq> 1"
  by (simp add: call_llm_with_retry_4 always_fails_def invoke_stripped_def pause_after_def
      boom_not_rate_limited)

section \<open>C4: the query of the verification stage\<close>

text \<open>The stage always returns an update: every exception of its lookups is caught.\<close>

lemma verification_body_returns:
  "\<exists>u a'. verification_body env state a = (Returned u, a')"
  by (simp add: verification_body_def Let_def split: sum.splits)

lemma verification_node_of_body:
  "verification_body env state a = (Returned u, a')
   \<Longrightarrow> verification_node env state a = (Returned (Some u), a')"
  by (simp add: verification_node_def error_boundary_def)




section \<open>C5: a failure of the risk assessment\<close>

lemma title_openrouter: "title ''openrouter'' = ''Openrouter''"
  by (simp add: title_def is_ascii_letter_def upper_char_def lower_char_def ascii_upper_def
      ascii_lower_def)

text \<open>
  What the code does with any failure inside the \<open>try\<close> of the stage (an error of the
  provider, a reply that does not decode, a missing key). The body logs the error, puts
  the API error of \<open>openrouter\<close> on the page and raises; \<open>error_boundary\<close> catches what
  was raised and the stage returns \<open>None\<close>. The graph merges nothing and goes on from the
  risk assessment with the state unchanged.
\<close>

lemma risk_assessment_failure_is_swallowed:
  assumes "llm_client env = Some llm" and "text_in state = Some t"
    and "risk_assessment_try llm env t = Inl e"
  shows "risk_assessment_body env state a
           = (Raised e,
              st_error (cross_mark @ '' Openrouter API error: '' @ str e) (log_error e a))
       \<and> fst (risk_assessment_node env state a) = Returned None
       \<and> run_from env RiskAssessment state a
           = run_from env
               (next_stage (snd (risk_assessment_node env state a)) state RiskAssessment)
               state (snd (risk_assessment_node env state a))"
proof -
  have b: "risk_assessment_body env state a
             = (Raised e,
                st_error (cross_mark @ '' Openrouter API error: '' @ str e) (log_error e a))"
    using assms
    by (simp add: risk_assessment_body_def handle_api_error_def title_openrouter)
  have n: "fst (risk_assessment_node env state a) = Returned None"
    by (simp add: risk_assessment_node_def b error_boundary_def)
  have "run_node env RiskAssessment state a
          = (Returned None, snd (risk_assessment_node env state a))"
    using n by (cases "risk_assessment_node env state a") (simp add: run_node_def)
  from run_from_step[OF _ this] have
    "run_from env RiskAssessment state a
       = run_from env
           (next_stage (snd (risk_assessment_node env state a))
              (apply_update state None) RiskAssessment)
           (apply_update state None) (snd (risk_assessment_node env state a))"
    by simp
  then show ?thesis
    using b n by (simp add: apply_update_def)
qed

text \<open>
  C5 on the code, at a reply of the LLM that does not decode. The body of the stage
  raises the decode error and the page names the API; but the stage, as the graph has
  it, returns \<open>None\<close>. The run does not abort: it goes on to the report stage and
  completes, with no \<open>risk_level\<close> in the final state and the recommendation that the
  content appears safe.
\<close>

theorem risk_assessment_failure_does_not_abort:
  "fst (risk_assessment_body prose_env unforced_input fresh_session) = Raised decode_error
   \<and> fst (risk_assessment_node prose_env unforced_input fresh_session) = Returned None
   \<and> page_errors (snd (risk_assessment_node prose_env unforced_input fresh_session))
       = [cross_mark @ '' Openrouter API error: Expecting value: line 1 column 1 (char 0)'',
          ''An error occurred in wrapper: Expecting value: line 1 column 1 (char 0)'']
   \<and> final_state (fst (run_from prose_env RiskAssessment unforced_input fresh_session)) \<noteq> None
   \<and> Option.bind (final_state (fst (run_from prose_env RiskAssessment unforced_input
                                       fresh_session))) processing_complete = Some True
   \<and> Option.bind (final_state (fst (run_from prose_env RiskAssessment unforced_input
                                       fresh_session))) risk_level = None
   \<and> Option.bind (final_state (fst (run_from prose_env RiskAssessment unforced_input
                                       fresh_session))) recommendations
       = Some [check_mark @ '' **CLEAR**: Content appears safe for standard publication'']"
proof -
  define llm :: llm where "llm = (\<lambda>prompt i. Content ''Sorry, I cannot help with that.'')"
  have c: "llm_client prose_env = Some llm"
    by (simp add: prose_env_def llm_def)
  have t: "text_in unforced_input = Some fifty_chars"
    by (simp add: unforced_input_def no_keys_def)
  have e: "risk_assessment_try llm prose_env fifty_chars = Inl decode_error"
    by (simp add: risk_assessment_try_def llm_def prose_env_def decode_error_def)
  note sw = risk_assessment_failure_is_swallowed[OF c t e, of fresh_session]
  define a2 where "a2 = snd (risk_assessment_node prose_env unforced_input fresh_session)"
  have p: "page_errors a2
       = [cross_mark @ '' Openrouter API error: Expecting value: line 1 column 1 (char 0)'',
          ''An error occurred in wrapper: Expecting value: line 1 column 1 (char 0)'']"
    using sw
    by (simp add: a2_def risk_assessment_node_def error_boundary_def st_error_def log_error_def
        decode_error_def fresh_session_def)
  have l: "get_or (risk_level unforced_input) ''low'' = ''low''"
    and f: "\<not> get_or (force_human_review unforced_input) False"
    by (simp_all add: unforced_input_def no_keys_def get_or_def)
  have g: "next_stage a2 unforced_input RiskAssessment = GenerateReport"
    using l f by (simp add: next_stage_def route_by_risk_level_def)
  define u where "u = no_keys\<lparr>recommendations := Some (recommendations_of unforced_input),
       final_report := Some (join nl (report_sections prose_env unforced_input a2 (take 5 []))),
       processing_complete := Some True,
       report_timestamp := Some (now_str prose_env),
       processing_time := Some (now prose_env - get_or (analysis_start_time a2) (now prose_env))\<rparr>"
  have n3: "report_generation_node prose_env unforced_input a2 = (Returned (Some u), a2)"
    by (simp add: report_generation_node_def report_generation_body_def error_boundary_def
        unforced_input_def no_keys_def get_or_def u_def)
  have run: "fst (run_from prose_env RiskAssessment unforced_input fresh_session)
               = Completed (apply_update unforced_input (Some u))"
    using sw g run_from_GenerateReport[OF n3] by (simp add: a2_def)
  have rec: "recommendations_of unforced_input
               = [check_mark @ '' **CLEAR**: Content appears safe for standard publication'']"
    by (simp add: recommendations_of_def insert_review_recommendation_def
        risk_recommendations_def content_type_recommendations_def unforced_input_def
        no_keys_def get_or_def)
  have k: "processing_complete (apply_update unforced_input (Some u)) = Some True"
    "risk_level (apply_update unforced_input (Some u)) = None"
    by (simp_all add: u_def merge_simps unforced_input_def no_keys_def)
  have k3: "recommendations (apply_update unforced_input (Some u))
       = Some [check_mark @ '' **CLEAR**: Content appears safe for standard publication'']"
    by (simp add: u_def merge_simps rec)
  show ?thesis
    using conjunct1[OF sw] conjunct1[OF conjunct2[OF sw]] p k k3
    by (simp add: run final_state_def a2_def)
qed

section \<open>C6: the head of the recommendations\<close>

text \<open>
  C6, as the code has it. When \<open>human_approval\<close> is \<open>rejected\<close>, \<open>needs_editing\<close> or
  \<open>approved\<close>, the first recommendation is the one of the review and the second is the
  first of the risk level. For every other value, \<open>skipped\<close> among them, nothing is
  inserted and the first recommendation is the first of the risk level.
\<close>

theorem review_recommendation_first:
  assumes "report_generation_node env state a = (Returned (Some u), a')"
    and "human_approval state = Some approval"
  shows "\<exists>recs. recommendations u = Some recs
       \<and> (approval = ''rejected'' \<longrightarrow>
            recs ! 0 = cross_mark
              @ '' **DO NOT PUBLISH**: Human reviewer has rejected this content'')
       \<and> (approval = ''needs_editing'' \<longrightarrow>
            recs ! 0 = memo
              @ '' **EDIT REQUIRED**: Content flagged for revision before publication'')
       \<and> (approval = ''approved'' \<longrightarrow>
            recs ! 0 = check_mark
              @ '' **HUMAN APPROVED**: Content has been reviewed and approved'')
       \<and> (approval \<in> {''rejected'', ''needs_editing'', ''approved''} \<longrightarrow>
            tl recs = risk_recommendations (get_or (risk_level state) ''unknown'')
                       @ content_type_recommendations (get_or (content_type state) ''unknown''))
       \<and> (approval \<notin> {''rejected'', ''needs_editing'', ''approved''} \<longrightarrow>
            recs = risk_recommendations (get_or (risk_level state) ''unknown'')
                     @ content_type_recommendations (get_or (content_type state) ''unknown'')
            \<and> recs ! 0 = hd (risk_recommendations (get_or (risk_level state) ''unknown'')))"
proof -
  have r: "recommendations u = Some (recommendations_of state)"
    using report_generation_node_update[OF assms(1)] by blast
  have a: "get_or (human_approval state) ''auto_approved'' = approval"
    using assms(2) by (simp add: get_or_def)
  have h: "(risk_recommendations level @ rest) ! 0 = hd (risk_recommendations level)"
    for level rest
    using risk_recommendations_not_empty[of level]
    by (cases "risk_recommendations level") simp_all
  show ?thesis
    using r a h
    by (auto simp: recommendations_of_def insert_review_recommendation_def Let_def)
qed

theorem review_recommendation_first_witness:
  "Option.bind (returned_update (fst (report_generation_node prose_env rejected_high fresh_session)))
     recommendations
   = Some ((cross_mark @ '' **DO NOT PUBLISH**: Human reviewer has rejected this content'')
           # risk_recommendations ''high'')"
proof -
  obtain u a' where n:
    "report_generation_node prose_env rejected_high fresh_session = (Returned (Some u), a')"
    by (simp add: report_generation_node_def report_generation_body_def error_boundary_def
        rejected_high_def no_keys_def get_or_def)
  have ap: "human_approval rejected_high = Some ''rejected''"
    by (simp add: rejected_high_def no_keys_def)
  have lv: "get_or (risk_level rejected_high) ''unknown'' = ''high''"
    and ct: "content_type_recommendations (get_or (content_type rejected_high) ''unknown'') = []"
    by (simp_all add: rejected_high_def no_keys_def get_or_def content_type_recommendations_def)
  from review_recommendation_first[OF n ap] obtain recs where
    r: "recommendations u = Some recs"
    and h: "recs ! 0 = cross_mark
              @ '' **DO NOT PUBLISH**: Human reviewer has rejected this content''"
    and t: "tl recs = risk_recommendations ''high''"
    using lv ct by auto
  have "recs \<noteq> []"
    using t risk_recommendations_not_empty[of "''high''"] by auto
  then have "recs = (cross_mark
              @ '' **DO NOT PUBLISH**: Human reviewer has rejected this content'')
              # risk_recommendations ''high''"
    using h t by (cases recs) simp_all
  then show ?thesis using n r by (simp add: returned_update_def)
qed

text \<open>
  The claim as the spec words it fails for a review that was skipped:
  \<open>human_approval\<close> is not \<open>auto_approved\<close>, and the first recommendation is the one of
  the risk level.
\<close>

theorem skipped_review_inserts_nothing:
  "human_approval skipped_high = Some ''skipped''
   \<and> Option.bind
        (returned_update (fst (report_generation_node prose_env skipped_high fresh_session)))
        recommendations
      = Some [warning_sign @ '' **CAUTION**: Additional fact-checking strongly recommended'',
              clipboard @ '' **REVIEW**: Have second opinion before publication'',
              bar_chart @ '' **TRACK**: Monitor audience response if published'']"
  by (simp add: report_node_simps recommendations_of_def insert_review_recommendation_def
      risk_recommendations_def content_type_recommendations_def skipped_high_def no_keys_def
      get_or_def)

section \<open>C7: a run of low risk with no forced review\<close>

text \<open>
  When the state after the risk assessment has the risk \<open>low\<close> and no forced review, the
  edge leads to the report and the run completes there, whatever the session is.
\<close>

lemma low_risk_goes_to_report:
  assumes "get_or (risk_level state) ''low'' = ''low''"
    and "\<not> get_or (force_human_review state) False"
  shows "route_by_risk_level a state = ''generate_report''
       \<and> next_stage a state RiskAssessment = GenerateReport"
  using assms by (simp add: next_stage_def route_by_risk_level_def)

lemma low_risk_run_completes:
  assumes "get_or (risk_level state) ''low'' = ''low''"
    and "\<not> get_or (force_human_review state) False"
  shows "\<exists>final a'. run_from env (next_stage a state RiskAssessment) state a = (Completed final, a')
           \<and> human_approval final = human_approval state
           \<and> review_status final = review_status state"
proof -
  obtain u where n: "report_generation_node env state a
                       = (Returned u, snd (report_generation_node env state a))"
    using report_generation_node_returns by blast
  have "run_from env GenerateReport state a
          = (Completed (apply_update state u), snd (report_generation_node env state a))"
    using run_from_GenerateReport[OF n] .
  then show ?thesis
    using low_risk_goes_to_report[OF assms] report_update_keeps_review[OF n] by simp
qed

text \<open>
  C7, as the code has it. From a state with \<open>risk_level\<close> low and no forced review, the
  run is routed past the human review, never halts and completes in the report stage;
  \<open>human_approval\<close> is not written: the final state has it as the state after the risk
  assessment had it, absent in a run that began with the input keys only. The report
  stage and the display read the absent key as \<open>auto_approved\<close>.
\<close>

theorem low_risk_run_bypasses_review:
  assumes "risk_level state = Some ''low''"
    and "\<not> get_or (force_human_review state) False"
  shows "route_by_risk_level a state = ''generate_report''
       \<and> (\<exists>final a'.
             run_from env (next_stage a state RiskAssessment) state a = (Completed final, a')
           \<and> human_approval final = human_approval state
           \<and> get_or (human_approval final) ''auto_approved''
               = get_or (human_approval state) ''auto_approved'')"
proof -
  have l: "get_or (risk_level state) ''low'' = ''low''"
    using assms(1) by (simp add: get_or_def)
  show ?thesis
    using low_risk_goes_to_report[OF l assms(2), of a]
      low_risk_run_completes[OF l assms(2), of env a]
    by auto
qed

lemma assessed_unforced_keys:
  "risk_level (assessed unforced_input) = Some ''low''"
  "force_human_review (assessed unforced_input) = Some False"
  "human_approval (assessed unforced_input) = None"
  by (simp_all add: assessed_def merge_simps low_assessment_def object_analysis_def
      unforced_input_def no_keys_def)

theorem low_risk_run_bypasses_review_witness:
  "route_by_risk_level fresh_session (assessed unforced_input) = ''generate_report''
   \<and> (\<exists>final a'.
         run_from low_risk_env GenerateReport (assessed unforced_input) fresh_session
           = (Completed final, a')
       \<and> human_approval final = None
       \<and> get_or (human_approval final) ''auto_approved'' = ''auto_approved'')"
proof -
  have f: "\<not> get_or (force_human_review (assessed unforced_input)) False"
    by (simp add: assessed_unforced_keys get_or_def)
  have n: "next_stage fresh_session (assessed unforced_input) RiskAssessment = GenerateReport"
    by (simp add: next_stage_def route_by_risk_level_def assessed_unforced_keys get_or_def
        analysis_speed_of_def fresh_session_def)
  from low_risk_run_bypasses_review[OF assessed_unforced_keys(1) f,
      of fresh_session low_risk_env]
  show ?thesis
    by (simp add: n assessed_unforced_keys get_or_def)
qed

text \<open>
  The claim as the spec words it fails in its second half: the run of the unforced
  input completes with the risk \<open>low\<close>, and its final state has no \<open>human_approval\<close>.
\<close>

theorem low_risk_run_leaves_approval_absent:
  "final_state (fst (invoke low_risk_env unforced_input fresh_session)) \<noteq> None
   \<and> Option.bind (final_state (fst (invoke low_risk_env unforced_input fresh_session)))
        risk_level = Some ''low''
   \<and> Option.bind (final_state (fst (invoke low_risk_env unforced_input fresh_session)))
        human_approval = None
   \<and> Option.bind (final_state (fst (invoke low_risk_env unforced_input fresh_session)))
        human_approval \<noteq> Some ''auto_approved''"
proof -
  have t: "text_in unforced_input = Some fifty_chars"
    by (simp add: unforced_input_def no_keys_def)
  have l: "get_or (risk_level (assessed unforced_input)) ''low'' = ''low''"
    and f: "\<not> get_or (force_human_review (assessed unforced_input)) False"
    by (simp_all add: assessed_unforced_keys get_or_def)
  obtain u where n: "report_generation_node low_risk_env (assessed unforced_input) fresh_session
       = (Returned u, snd (report_generation_node low_risk_env (assessed unforced_input)
                             fresh_session))"
    using report_generation_node_returns by blast
  have g: "next_stage fresh_session (assessed unforced_input) RiskAssessment = GenerateReport"
    using low_risk_goes_to_report[OF l f] by simp
  have run: "fst (invoke low_risk_env unforced_input fresh_session)
               = Completed (apply_update (assessed unforced_input) u)"
    using low_risk_run_prefix[OF t, of fresh_session] run_from_GenerateReport[OF n] g by simp
  have h: "human_approval (apply_update (assessed unforced_input) u) = None"
    using report_update_keeps_review[OF n] by (simp add: assessed_unforced_keys)
  have r: "risk_level (apply_update (assessed unforced_input) u) = Some ''low''"
    using n
    by (cases "entity_names (get_or (entities (assessed unforced_input)) [])")
       (auto simp: report_generation_node_def report_generation_body_def error_boundary_def
          no_keys_def merge_simps assessed_unforced_keys)
  show ?thesis
    by (simp add: run final_state_def h r)
qed

section \<open>C8: an absent verification score in the report\<close>

lemma show_nat_0: "show_nat 0 = ''0''"
  by (subst show_nat.simps) (simp add: digit_char_def)

lemma format_percent_1_zero: "format_percent_1 0 = ''0.0%''"
  by (simp add: format_percent_1_def round_half_even_def show_nat_0)

lemma format_percent_1_half: "format_percent_1 (1 / 2) = ''50.0%''"
proof -
  have r: "round_half_even 500 = 500"
    by (simp add: round_half_even_def)
  have d: "show_nat 50 = ''50''"
    by (subst show_nat.simps, subst show_nat.simps) (simp add: digit_char_def)
  show ?thesis
    by (simp add: format_percent_1_def r d show_nat_0)
qed

lemma verification_score_line:
  "report_sections env state a entities_list ! 7
     = ''- **Verification Score:** '' @ format_percent_1 (get_or (verification_score state) 0)"
  by (simp add: report_sections_def Let_def)

lemma report_sections_length: "7 < length (report_sections env state a entities_list)"
  by (simp add: report_sections_def Let_def)

text \<open>
  C8, as the code has it. The report stage reads \<open>verification_score\<close> with the default
  0: when the key is absent, the line of the report shows \<open>0.0%\<close>, as for a score of 0.
  The neutral 0.5 is what the verification stage itself returns when it cannot verify.
\<close>

theorem absent_verification_score_reported_as_zero:
  assumes "verification_score state = None"
    and "report_generation_node env state a = (Returned (Some u), a')"
  shows "\<exists>lines. final_report u = Some (join nl lines) \<and> 7 < length lines
           \<and> lines ! 7 = ''- **Verification Score:** 0.0%''"
proof -
  obtain names where
    f: "final_report u = Some (join nl (report_sections env state a (take 5 names)))"
    using report_generation_node_update[OF assms(2)] by blast
  have l: "report_sections env state a (take 5 names) ! 7 = ''- **Verification Score:** 0.0%''"
    using assms(1) by (simp add: verification_score_line get_or_def format_percent_1_zero)
  show ?thesis
    using f l report_sections_length by blast
qed

theorem absent_verification_score_reported_as_zero_witness:
  "\<exists>lines. Option.bind
              (returned_update (fst (report_generation_node prose_env scenario_b fresh_session)))
              final_report = Some (join nl lines)
           \<and> lines ! 7 = ''- **Verification Score:** 0.0%''"
proof -
  obtain u a' where n:
    "report_generation_node prose_env scenario_b fresh_session = (Returned (Some u), a')"
    by (simp add: report_generation_node_def report_generation_body_def error_boundary_def
        example_state_simps)
  have v: "verification_score scenario_b = None"
    by (simp add: example_state_simps)
  from absent_verification_score_reported_as_zero[OF v n]
  show ?thesis using n by (auto simp: returned_update_def)
qed

text \<open>
  The claim as the spec words it fails: for a state without the key, the line of the
  report is not the one of the neutral score 0.5.
\<close>

theorem absent_verification_score_not_neutral:
  "verification_score scenario_b = None
   \<and> Option.bind
        (returned_update (fst (report_generation_node prose_env scenario_b fresh_session)))
        final_report
      = Some (join nl (report_sections prose_env scenario_b fresh_session []))
   \<and> report_sections prose_env scenario_b fresh_session [] ! 7
      = ''- **Verification Score:** 0.0%''
   \<and> ''- **Verification Score:** '' @ format_percent_1 (1 / 2)
      = ''- **Verification Score:** 50.0%''
   \<and> report_sections prose_env scenario_b fresh_session [] ! 7
      \<noteq> ''- **Verification Score:** '' @ format_percent_1 (1 / 2)"
proof -
  have v: "verification_score scenario_b = None"
    by (simp add: example_state_simps)
  have n: "Option.bind
        (returned_update (fst (report_generation_node prose_env scenario_b fresh_session)))
        final_report
      = Some (join nl (report_sections prose_env scenario_b fresh_session []))"
    by (simp add: report_node_simps example_state_simps)
  have l: "report_sections prose_env scenario_b fresh_session [] ! 7
             = ''- **Verification Score:** 0.0%''"
    using v by (simp add: verification_score_line get_or_def format_percent_1_zero)
  show ?thesis
    using v n l by (simp add: format_percent_1_half)
qed

section \<open>C9: a reply of the content analysis that does not decode\<close>




section \<open>C10: what the routing predicates depend on\<close>

text \<open>
  C10, as the code has it. \<open>should_include_verification\<close> is a function of the state
  alone, and of three of its keys only. \<open>route_by_risk_level\<close> also reads the preference
  \<open>analysis_speed\<close> of the session: on one state, two sessions give different routes
  exactly when the risk is medium, no review is forced, and one session only is set to
  \<open>thorough\<close>.
\<close>

theorem routing_predicates_dependence:
  "(include_external_verification s1 = include_external_verification s2
      \<and> text_in s1 = text_in s2 \<and> entities s1 = entities s2
      \<longrightarrow> should_include_verification s1 = should_include_verification s2)
   \<and> (route_by_risk_level a1 state = route_by_risk_level a2 state
        \<longleftrightarrow> \<not> (get_or (risk_level state) ''low'' = ''medium''
               \<and> \<not> get_or (force_human_review state) False
               \<and> (analysis_speed_of a1 = ''thorough'') \<noteq> (analysis_speed_of a2 = ''thorough'')))"
  by (auto simp: should_include_verification_def route_by_risk_level_def Let_def)

theorem routing_predicates_dependence_witness:
  "should_include_verification scenario_b
     = should_include_verification (scenario_b\<lparr>risk_level := Some ''high''\<rparr>)
   \<and> route_by_risk_level thorough_session scenario_b
     = route_by_risk_level fresh_session scenario_b"
  using routing_predicates_dependence
    [of scenario_b "scenario_b\<lparr>risk_level := Some ''high''\<rparr>" thorough_session scenario_b
        fresh_session]
  by (simp add: scenario_b_def no_keys_def get_or_def)

text \<open>
  The claim as the spec words it fails for \<open>route_by_risk_level\<close>: on the same state of
  medium risk, a session set to thorough is routed to the human review and a balanced
  one to the report.
\<close>

theorem route_by_risk_level_reads_session:
  "route_by_risk_level thorough_session medium_risk = ''human_review''
   \<and> route_by_risk_level fresh_session medium_risk = ''generate_report''
   \<and> route_by_risk_level thorough_session medium_risk
       \<noteq> route_by_risk_level fresh_session medium_risk"
  by (simp add: route_by_risk_level_def analysis_speed_of_def thorough_session_def
      fresh_session_def medium_risk_def no_keys_def get_or_def)

end
